theory Spec2Isabelle
  imports Main "HOL-Library.AList"
begin

section \<open>Python values used by the billing system\<close>

subsection \<open>Floats\<close>

text \<open>
  Every amount and balance of \<^verbatim>\<open>tStyle.py\<close> is a Python \<^verbatim>\<open>float\<close>, an IEEE-754
  binary64 number. Every finite binary64 number is an integer multiple of the smallest
  subnormal \<open>2\<^sup>-\<^sup>1\<^sup>0\<^sup>7\<^sup>4\<close>, so \<open>Finite k\<close> stands for the float \<open>k \<cdot> 2\<^sup>-\<^sup>1\<^sup>0\<^sup>7\<^sup>4\<close>:
  \<open>1.0\<close> is \<open>Finite (2 ^ 1074)\<close>, \<open>50.0\<close> is \<open>Finite (50 * 2 ^ 1074)\<close>. \<open>Finite 0\<close> is
  \<open>+0.0\<close>, \<open>NegZero\<close> is \<open>-0.0\<close>, and \<open>PInf\<close>, \<open>NInf\<close>, \<open>NaN\<close> are \<^verbatim>\<open>inf\<close>,
  \<^verbatim>\<open>-inf\<close> and \<^verbatim>\<open>nan\<close>. The integer literals the source mixes with floats (\<^verbatim>\<open>0\<close>,
  \<^verbatim>\<open>1000000\<close>) are read as the floats of the same value, which compare, add and print
  (\<^verbatim>\<open>,.2f\<close>, \<^verbatim>\<open>str(float(.))\<close>) as those integers do.
\<close>

datatype pyfloat = Finite int | NegZero | PInf | NInf | NaN

text \<open>\<^verbatim>\<open>int.bit_length\<close>: the number of binary digits of \<open>n\<close>.\<close>

fun bit_length :: "nat \<Rightarrow> nat" where
  "bit_length n = (if n = 0 then 0 else Suc (bit_length (n div 2)))"

declare bit_length.simps [simp del]

text \<open>The quotient \<open>n / d\<close> rounded to the nearest integer, ties to the even one.\<close>

definition rne_div :: "nat \<Rightarrow> nat \<Rightarrow> nat" where
  "rne_div n d =
     (let q = n div d; r = n mod d
      in if 2 * r < d then q
         else if d < 2 * r then q + 1
         else if even q then q else q + 1)"

text \<open>
  Rounding to 53 significant bits (the binary64 significand), to nearest, ties to even.
  Numbers of at most 53 bits, the subnormals among them, are kept as they are.
\<close>

definition round53 :: "nat \<Rightarrow> nat" where
  "round53 n = (let s = bit_length n - 53 in rne_div n (2 ^ s) * 2 ^ s)"

text \<open>
  The float nearest to the exact value \<open>i \<cdot> 2\<^sup>-\<^sup>1\<^sup>0\<^sup>7\<^sup>4\<close>. A magnitude that rounds to
  \<open>2\<^sup>1\<^sup>0\<^sup>2\<^sup>4\<close> or more overflows to an infinity.
\<close>

definition float_limit :: nat where
  "float_limit = 2 ^ 2098"

definition of_exact :: "int \<Rightarrow> pyfloat" where
  "of_exact i =
     (let m = round53 (nat \<bar>i\<bar>)
      in if float_limit \<le> m then (if i < 0 then NInf else PInf)
         else Finite (if i < 0 then - int m else int m))"

text \<open>A float is well formed when its magnitude has 53 significant bits and is in range.\<close>

definition is_double :: "pyfloat \<Rightarrow> bool" where
  "is_double x =
     (case x of
        Finite k \<Rightarrow> 2 ^ (bit_length (nat \<bar>k\<bar>) - 53) dvd nat \<bar>k\<bar> \<and> nat \<bar>k\<bar> < float_limit
      | _ \<Rightarrow> True)"

text \<open>The difference of two finite floats is itself a float: subtracting rounds nothing.\<close>

definition exact_difference :: "pyfloat \<Rightarrow> pyfloat \<Rightarrow> bool" where
  "exact_difference b a =
     (case (b, a) of (Finite kb, Finite ka) \<Rightarrow> is_double (Finite (kb - ka)) | _ \<Rightarrow> False)"

fun fneg :: "pyfloat \<Rightarrow> pyfloat" where
  "fneg (Finite k) = (if k = 0 then NegZero else Finite (- k))"
| "fneg NegZero = Finite 0"
| "fneg PInf = NInf"
| "fneg NInf = PInf"
| "fneg NaN = NaN"

text \<open>\<^verbatim>\<open>x + y\<close> on floats.\<close>

fun fadd :: "pyfloat \<Rightarrow> pyfloat \<Rightarrow> pyfloat" where
  "fadd NaN y = NaN"
| "fadd x NaN = NaN"
| "fadd PInf NInf = NaN"
| "fadd NInf PInf = NaN"
| "fadd PInf y = PInf"
| "fadd x PInf = PInf"
| "fadd NInf y = NInf"
| "fadd x NInf = NInf"
| "fadd NegZero y = y"
| "fadd x NegZero = x"
| "fadd (Finite a) (Finite b) = of_exact (a + b)"

text \<open>\<^verbatim>\<open>x - y\<close> on floats: IEEE-754 subtraction is addition of the negated operand.\<close>

definition fsub :: "pyfloat \<Rightarrow> pyfloat \<Rightarrow> pyfloat" where
  "fsub x y = fadd x (fneg y)"

text \<open>
  Comparisons. Every comparison with \<^verbatim>\<open>nan\<close> is false; the two zeros are equal.
  \<open>the_int\<close> is read on finite floats only.
\<close>

fun the_int :: "pyfloat \<Rightarrow> int" where
  "the_int (Finite k) = k"
| "the_int x = 0"

definition is_finite :: "pyfloat \<Rightarrow> bool" where
  "is_finite x = (case x of Finite k \<Rightarrow> True | NegZero \<Rightarrow> True | _ \<Rightarrow> False)"

text \<open>\<^verbatim>\<open>x < y\<close>.\<close>

definition flt :: "pyfloat \<Rightarrow> pyfloat \<Rightarrow> bool" where
  "flt x y =
     (if x = NaN \<or> y = NaN then False
      else if x = PInf \<or> y = NInf then False
      else if x = NInf \<or> y = PInf then True
      else the_int x < the_int y)"

text \<open>\<^verbatim>\<open>x <= y\<close>.\<close>

definition fle :: "pyfloat \<Rightarrow> pyfloat \<Rightarrow> bool" where
  "fle x y =
     (if x = NaN \<or> y = NaN then False
      else if x = NInf \<or> y = PInf then True
      else if x = PInf \<or> y = NInf then False
      else the_int x \<le> the_int y)"

text \<open>The float of an integer value, when it is exactly representable and in range.\<close>

definition float_of_int :: "int \<Rightarrow> pyfloat" where
  "float_of_int i = of_exact (i * 2 ^ 1074)"

text \<open>
  The float \<open>1000000.0\<close>, the default of \<^verbatim>\<open>default_balance\<close> and of
  \<^verbatim>\<open>initial_balance\<close> in the source.
\<close>

definition one_million :: pyfloat where
  "one_million = Finite (1000000 * 2 ^ 1074)"

subsection \<open>Strings\<close>

text \<open>
  A Python string is modelled as a list of characters, one \<open>char\<close> per code point below
  256. \<open>is_space\<close> is \<^verbatim>\<open>str.isspace\<close> on those code points, which is what
  \<^verbatim>\<open>str.strip()\<close> removes.
\<close>

definition is_space :: "char \<Rightarrow> bool" where
  "is_space c =
     (let n = (of_char c :: nat)
      in (9 \<le> n \<and> n \<le> 13) \<or> (28 \<le> n \<and> n \<le> 32) \<or> n = 133 \<or> n = 160)"

definition strip :: "string \<Rightarrow> string" where
  "strip s = rev (dropWhile is_space (rev (dropWhile is_space s)))"

definition digit_char :: "nat \<Rightarrow> char" where
  "digit_char d = ''0123456789'' ! d"

text \<open>\<^verbatim>\<open>str(n)\<close> for a non-negative integer, and for any integer.\<close>

fun str_nat :: "nat \<Rightarrow> string" where
  "str_nat n = (if n < 10 then [digit_char n] else str_nat (n div 10) @ [digit_char (n mod 10)])"

declare str_nat.simps [simp del]

definition str_int :: "int \<Rightarrow> string" where
  "str_int i = (if i < 0 then ''-'' @ str_nat (nat (- i)) else str_nat (nat i))"

text \<open>The digits of a non-negative integer with a comma between groups of three.\<close>

fun group_thousands :: "nat \<Rightarrow> string" where
  "group_thousands n =
     (if n < 1000 then str_nat n
      else group_thousands (n div 1000) @ '','' @
           [digit_char (n mod 1000 div 100), digit_char (n mod 100 div 10), digit_char (n mod 10)])"

declare group_thousands.simps [simp del]

text \<open>
  The format specification \<^verbatim>\<open>,.2f\<close> of the messages: the exact value rounded to two
  decimals (to nearest, ties to even), with thousands separators. \<open>hundredths k\<close> is the
  magnitude of \<open>Finite k\<close> in hundredths, rounded.
\<close>

definition hundredths :: "int \<Rightarrow> nat" where
  "hundredths k = rne_div (nat \<bar>k\<bar> * 100) (2 ^ 1074)"

definition format_2f :: "pyfloat \<Rightarrow> string" where
  "format_2f x =
     (case x of
        NaN \<Rightarrow> ''nan''
      | PInf \<Rightarrow> ''inf''
      | NInf \<Rightarrow> ''-inf''
      | NegZero \<Rightarrow> ''-0.00''
      | Finite k \<Rightarrow>
          (let c = hundredths k
           in (if k < 0 then ''-'' else []) @ group_thousands (c div 100) @ ''.'' @
              [digit_char (c mod 100 div 10), digit_char (c mod 10)]))"

subsection \<open>Arguments, exceptions and JSON values\<close>

text \<open>
  The arguments a caller can pass where the source expects an amount. \<open>PNone\<close> stands for
  every object that \<^verbatim>\<open>float()\<close> refuses with a \<^verbatim>\<open>TypeError\<close>.
\<close>

datatype pyval = PFloat pyfloat | PInt int | PBool bool | PStr string | PNone

datatype exn = ValueError string | TypeError | OverflowError string | Exception string

text \<open>\<^verbatim>\<open>str(e)\<close> of an exception, as the f-strings of the source print it.\<close>

fun exn_msg :: "exn \<Rightarrow> string" where
  "exn_msg (ValueError m) = m"
| "exn_msg TypeError = []"
| "exn_msg (OverflowError m) = m"
| "exn_msg (Exception m) = m"

text \<open>The exceptions matched by \<^verbatim>\<open>except (ValueError, TypeError)\<close>.\<close>

fun value_or_type_error :: "exn \<Rightarrow> bool" where
  "value_or_type_error (ValueError m) = True"
| "value_or_type_error TypeError = True"
| "value_or_type_error e = False"

datatype json =
    JNull
  | JBool bool
  | JInt int
  | JFloat pyfloat
  | JStr string
  | JList "json list"
  | JObj "(string \<times> json) list"

text \<open>
  The functions of the Python runtime that the source calls on strings are parameters of
  the model: \<^verbatim>\<open>float(s)\<close> on a string (\<open>None\<close> when it raises \<^verbatim>\<open>ValueError\<close>),
  \<^verbatim>\<open>str(x)\<close> on a float, \<^verbatim>\<open>json.loads\<close> (\<open>None\<close> when it raises
  \<^verbatim>\<open>JSONDecodeError\<close>) and the text that \<^verbatim>\<open>json.dump\<close> writes.
\<close>

record runtime =
  float_of_str :: "string \<Rightarrow> pyfloat option"
  str_of_float :: "pyfloat \<Rightarrow> string"
  json_loads :: "string \<Rightarrow> json option"
  json_dumps :: "json \<Rightarrow> string"

text \<open>
  \<^verbatim>\<open>float(x)\<close>. An integer is rounded to the nearest float and raises
  \<^verbatim>\<open>OverflowError\<close> when that is out of range. The message of the \<^verbatim>\<open>ValueError\<close> is
  cut short (Python appends the string it refused) and the \<^verbatim>\<open>TypeError\<close> carries none:
  no code of the source reads either.
\<close>

definition float_coerce :: "runtime \<Rightarrow> pyval \<Rightarrow> exn + pyfloat" where
  "float_coerce rt v =
     (case v of
        PFloat x \<Rightarrow> Inr x
      | PInt i \<Rightarrow>
          (case float_of_int i of
             Finite k \<Rightarrow> Inr (Finite k)
           | _ \<Rightarrow> Inl (OverflowError ''int too large to convert to float''))
      | PBool b \<Rightarrow> Inr (float_of_int (if b then 1 else 0))
      | PStr s \<Rightarrow>
          (case float_of_str rt s of
             Some x \<Rightarrow> Inr x
           | None \<Rightarrow> Inl (ValueError ''could not convert string to float''))
      | PNone \<Rightarrow> Inl TypeError)"

section \<open>The file system\<close>

text \<open>
  The files the program reads and writes, with the faults of the environment: a path
  whose opening for reading, opening for writing or renaming raises an exception. A
  failing operation leaves the files as they are.
\<close>

record world =
  files :: "string \<Rightarrow> string option"
  read_fails :: "string \<Rightarrow> bool"
  write_fails :: "string \<Rightarrow> bool"
  rename_fails :: "string \<Rightarrow> bool"

text \<open>\<^verbatim>\<open>os.path.exists\<close>.\<close>

definition path_exists :: "world \<Rightarrow> string \<Rightarrow> bool" where
  "path_exists w p = (files w p \<noteq> None)"

text \<open>
  \<^verbatim>\<open>with open(p, 'r') as file: file.read()\<close>: \<open>None\<close> when it raises (the file is
  missing or unreadable). The two load functions hand the characters to \<^verbatim>\<open>strip()\<close> and
  then to \<^verbatim>\<open>float()\<close> or \<^verbatim>\<open>json.loads\<close>, which take CR, CR LF and LF alike.
\<close>

definition read_text :: "world \<Rightarrow> string \<Rightarrow> string option" where
  "read_text w p = (if read_fails w p then None else files w p)"

text \<open>\<^verbatim>\<open>with open(p, 'w') as file: file.write(s)\<close>: \<open>None\<close> when it raises.\<close>

definition write_text :: "world \<Rightarrow> string \<Rightarrow> string \<Rightarrow> world option" where
  "write_text w p s =
     (if write_fails w p then None else Some (w\<lparr>files := (files w)(p \<mapsto> s)\<rparr>))"

text \<open>
  What a read in text mode returns for the characters of a file: \<^verbatim>\<open>open(p, 'r')\<close> has
  universal newlines, so CR LF and a lone CR (\<open>CHR 0x0D\<close>) are read as LF (\<open>CHR 0x0A\<close>).
\<close>

fun universal_newlines :: "string \<Rightarrow> string" where
  "universal_newlines [] = []"
| "universal_newlines [c] = [if c = CHR 0x0D then CHR 0x0A else c]"
| "universal_newlines (c # d # cs) =
     (if c = CHR 0x0D \<and> d = CHR 0x0A then CHR 0x0A # universal_newlines cs
      else if c = CHR 0x0D then CHR 0x0A # universal_newlines (d # cs)
      else c # universal_newlines (d # cs))"

text \<open>
  The backup the two save functions make first, inside \<^verbatim>\<open>try: ... except Exception: pass\<close>:
  \<^verbatim>\<open>with open(src, 'r') as src, open(dst, 'w') as dst: dst.write(src.read())\<close>. Both
  files are open in text mode, so the copy holds the text that was read, with LF for every
  line ending (on POSIX the write keeps LF).
\<close>

definition backup_copy :: "world \<Rightarrow> string \<Rightarrow> string \<Rightarrow> world" where
  "backup_copy w src dst =
     (case read_text w src of
        None \<Rightarrow> w
      | Some c \<Rightarrow>
          (case write_text w dst (universal_newlines c) of None \<Rightarrow> w | Some w' \<Rightarrow> w'))"

text \<open>\<^verbatim>\<open>os.rename(src, dst)\<close>: \<open>None\<close> when it raises.\<close>

definition rename_file :: "world \<Rightarrow> string \<Rightarrow> string \<Rightarrow> world option" where
  "rename_file w src dst =
     (case files w src of
        None \<Rightarrow> None
      | Some c \<Rightarrow>
          if rename_fails w src then None
          else Some (w\<lparr>files := ((files w)(src := None))(dst \<mapsto> c)\<rparr>))"

text \<open>\<^verbatim>\<open>os.path.join\<close> of a folder and a relative file name (POSIX).\<close>

definition path_join :: "string \<Rightarrow> string \<Rightarrow> string" where
  "path_join a b = (if a = [] then b else if last a = CHR ''/'' then a @ b else a @ ''/'' @ b)"

section \<open>FileManager\<close>

record file_manager =
  accounts_folder :: string
  registry_file :: string

text \<open>
  \<^verbatim>\<open>load_json_file\<close>. \<open>stamp\<close> is the reading of the clock,
  \<^verbatim>\<open>datetime.now().strftime('%Y%m%d_%H%M%S')\<close>. The three \<open>JObj []\<close> of the first
  branches are the \<^verbatim>\<open>return {}\<close> after the \<^verbatim>\<open>if\<close> and the one of
  \<^verbatim>\<open>except Exception\<close>; the last branch is the handler of \<^verbatim>\<open>JSONDecodeError\<close>, where a
  failing \<^verbatim>\<open>os.rename\<close> is passed over.
\<close>

definition load_json_file :: "runtime \<Rightarrow> string \<Rightarrow> world \<Rightarrow> string \<Rightarrow> json \<times> world" where
  "load_json_file rt stamp w file_path =
     (if path_exists w file_path then
        (case read_text w file_path of
           None \<Rightarrow> (JObj [], w)
         | Some raw \<Rightarrow>
             (let content = strip raw
              in if content \<noteq> [] then
                   (case json_loads rt content of
                      Some data \<Rightarrow> (data, w)
                    | None \<Rightarrow>
                        (let backup_path = file_path @ ''.corrupted_'' @ stamp
                         in case rename_file w file_path backup_path of
                              Some w' \<Rightarrow> (JObj [], w')
                            | None \<Rightarrow> (JObj [], w)))
                 else (JObj [], w)))
      else (JObj [], w))"

text \<open>\<^verbatim>\<open>save_json_file\<close>: the success flag and the file system after the call.\<close>

definition save_json_file :: "runtime \<Rightarrow> world \<Rightarrow> string \<Rightarrow> json \<Rightarrow> bool \<times> world" where
  "save_json_file rt w file_path data =
     (let w1 = (if path_exists w file_path then backup_copy w file_path (file_path @ ''.backup'')
                else w)
      in case write_text w1 file_path (json_dumps rt data) of
           Some w2 \<Rightarrow> (True, w2)
         | None \<Rightarrow> (False, w1))"

definition get_account_balance_path :: "file_manager \<Rightarrow> int \<Rightarrow> string" where
  "get_account_balance_path fm account_id =
     path_join (accounts_folder fm) (''account_'' @ str_int account_id @ ''_balance.txt'')"

text \<open>\<^verbatim>\<open>save_balance_to_file\<close>.\<close>

definition save_balance_to_file ::
  "runtime \<Rightarrow> file_manager \<Rightarrow> world \<Rightarrow> int \<Rightarrow> pyfloat \<Rightarrow> bool \<times> world" where
  "save_balance_to_file rt fm w account_id balance =
     (if flt balance (Finite 0) then (False, w)
      else
        (let balance_file = get_account_balance_path fm account_id;
             w1 = (if path_exists w balance_file
                   then backup_copy w balance_file (balance_file @ ''.backup'')
                   else w)
         in case write_text w1 balance_file (str_of_float rt balance) of
              Some w2 \<Rightarrow> (True, w2)
            | None \<Rightarrow> (False, w1)))"

text \<open>
  \<^verbatim>\<open>load_balance_from_file\<close>: the balance returned and the file system after the call.
  A file that cannot be read or whose content \<^verbatim>\<open>float()\<close> refuses ends in one of the
  two handlers, which return the default and write nothing.
\<close>

definition load_balance_from_file ::
  "runtime \<Rightarrow> file_manager \<Rightarrow> world \<Rightarrow> int \<Rightarrow> pyfloat \<Rightarrow> pyfloat \<times> world" where
  "load_balance_from_file rt fm w account_id default_balance =
     (let balance_file = get_account_balance_path fm account_id;
          create = (default_balance, snd (save_balance_to_file rt fm w account_id default_balance))
      in if path_exists w balance_file then
           (case read_text w balance_file of
              None \<Rightarrow> (default_balance, w)
            | Some raw \<Rightarrow>
                (let content = strip raw
                 in if content \<noteq> [] then
                      (case float_of_str rt content of
                         None \<Rightarrow> (default_balance, w)
                       | Some balance \<Rightarrow>
                           (if fle (Finite 0) balance then balance else default_balance, w))
                    else create))
         else create)"

section \<open>AccountManager\<close>

text \<open>
  The two readings of the clock that \<^verbatim>\<open>create_new_account\<close> can make:
  \<^verbatim>\<open>'%Y%m%d_%H%M%S'\<close> for the name of a quarantined registry and
  \<^verbatim>\<open>'%Y-%m-%d %H:%M:%S'\<close> for the field \<^verbatim>\<open>created\<close>.
\<close>

record clock =
  file_stamp :: string
  created_stamp :: string

definition get_accounts_list :: "runtime \<Rightarrow> file_manager \<Rightarrow> clock \<Rightarrow> world \<Rightarrow> json \<times> world" where
  "get_accounts_list rt fm clk w = load_json_file rt (file_stamp clk) w (registry_file fm)"

definition save_accounts_list :: "runtime \<Rightarrow> file_manager \<Rightarrow> world \<Rightarrow> json \<Rightarrow> bool \<times> world" where
  "save_accounts_list rt fm w accounts = save_json_file rt w (registry_file fm) accounts"

text \<open>Reading a decimal string back, the inverse of \<open>str_nat\<close>.\<close>

definition nat_of_digits :: "string \<Rightarrow> nat" where
  "nat_of_digits s = foldl (\<lambda>a c. 10 * a + (of_char c - 48)) 0 s"

lemma digit_char_code: "d < 10 \<Longrightarrow> of_char (digit_char d) = 48 + d"
proof -
  assume "d < 10"
  then have "d \<in> {0, 1, 2, 3, 4, 5, 6, 7, 8, 9}" by auto
  then show ?thesis by (auto simp: digit_char_def)
qed

lemma nat_of_digits_str_nat: "nat_of_digits (str_nat n) = n"
proof (induction n rule: str_nat.induct)
  case (1 n)
  show ?case
  proof (cases "n < 10")
    case True
    then show ?thesis
      by (subst str_nat.simps) (simp add: nat_of_digits_def digit_char_code)
  next
    case False
    have "nat_of_digits (str_nat n) = 10 * nat_of_digits (str_nat (n div 10)) + n mod 10"
      using False
      by (subst str_nat.simps) (simp add: nat_of_digits_def digit_char_code)
    then show ?thesis using 1 False by simp
  qed
qed

text \<open>
  The loop \<^verbatim>\<open>while str(account_id) in accounts: account_id += 1\<close> over the keys of the
  registry. It ends because the keys are finitely many.
\<close>

function next_account_id :: "string list \<Rightarrow> nat \<Rightarrow> nat" where
  "next_account_id keys account_id =
     (if str_nat account_id \<in> set keys then next_account_id keys (account_id + 1)
      else account_id)"
  by pat_completeness auto
termination
proof (relation "measure (\<lambda>(keys, n). Suc (Max (insert 0 (nat_of_digits ` set keys))) - n)")
  show "wf (measure (\<lambda>(keys, n). Suc (Max (insert 0 (nat_of_digits ` set keys))) - n))"
    by simp
next
  fix keys :: "string list" and account_id :: nat
  assume "str_nat account_id \<in> set keys"
  then have "nat_of_digits (str_nat account_id) \<in> insert 0 (nat_of_digits ` set keys)"
    by blast
  then have "account_id \<le> Max (insert 0 (nat_of_digits ` set keys))"
    unfolding nat_of_digits_str_nat by (intro Max_ge) auto
  then show "((keys, account_id + 1), (keys, account_id))
      \<in> measure (\<lambda>(keys, n). Suc (Max (insert 0 (nat_of_digits ` set keys))) - n)"
    by simp
qed

declare next_account_id.simps [simp del]

text \<open>
  \<^verbatim>\<open>create_new_account\<close>. The result is the exception raised to the caller or the pair
  \<^verbatim>\<open>(account_id, account_info)\<close>, with the file system after the call. A registry that
  is not a JSON object ends in a \<^verbatim>\<open>TypeError\<close>: a list or a string lets the loop run and
  refuses the item assignment, every other value refuses the \<^verbatim>\<open>in\<close> test.
\<close>

definition account_info_of :: "nat \<Rightarrow> string \<Rightarrow> string \<Rightarrow> pyfloat \<Rightarrow> json" where
  "account_info_of account_id account_name created initial_balance =
     JObj [(''id'', JInt (int account_id)),
           (''name'', JStr (strip account_name)),
           (''created'', JStr created),
           (''balance'', JFloat initial_balance)]"

definition create_new_account ::
  "runtime \<Rightarrow> file_manager \<Rightarrow> clock \<Rightarrow> world \<Rightarrow> string \<Rightarrow> pyval \<Rightarrow> (exn + nat \<times> json) \<times> world" where
  "create_new_account rt fm clk w account_name initial_balance =
     (if account_name = [] \<or> strip account_name = [] then
        (Inl (ValueError ''Account name cannot be empty''), w)
      else
        (case float_coerce rt initial_balance of
           Inl e \<Rightarrow> (Inl e, w)
         | Inr initial_balance \<Rightarrow>
             if flt initial_balance (Finite 0) then
               (Inl (ValueError ''Initial balance cannot be negative''), w)
             else
               (case get_accounts_list rt fm clk w of
                  (JObj accounts, w1) \<Rightarrow>
                    (let account_id = next_account_id (map fst accounts) 1;
                         account_info =
                           account_info_of account_id account_name (created_stamp clk) initial_balance;
                         accounts1 = AList.update (str_nat account_id) account_info accounts
                     in case save_accounts_list rt fm w1 (JObj accounts1) of
                          (False, w2) \<Rightarrow> (Inl (Exception ''Failed to save account registry''), w2)
                        | (True, w2) \<Rightarrow>
                            (case save_balance_to_file rt fm w2 (int account_id) initial_balance of
                               (False, w3) \<Rightarrow>
                                 (let accounts2 = AList.delete (str_nat account_id) accounts1
                                  in (Inl (Exception ''Failed to create balance file''),
                                      snd (save_accounts_list rt fm w3 (JObj accounts2))))
                             | (True, w3) \<Rightarrow> (Inr (account_id, account_info), w3)))
                | (other, w1) \<Rightarrow> (Inl TypeError, w1))))"

section \<open>BankAccount\<close>

record bank_account =
  account_id :: int
  balance :: pyfloat

text \<open>The constructor loads the balance, with the default \<^verbatim>\<open>1000000\<close>.\<close>

definition new_bank_account ::
  "runtime \<Rightarrow> file_manager \<Rightarrow> world \<Rightarrow> int \<Rightarrow> bank_account \<times> world" where
  "new_bank_account rt fm w i =
     (case load_balance_from_file rt fm w i one_million of
        (b, w') \<Rightarrow> (\<lparr>account_id = i, balance = b\<rparr>, w'))"

definition get_balance :: "bank_account \<Rightarrow> pyfloat" where
  "get_balance acct = balance acct"

definition save_balance :: "runtime \<Rightarrow> file_manager \<Rightarrow> bank_account \<Rightarrow> world \<Rightarrow> bool \<times> world" where
  "save_balance rt fm acct w = save_balance_to_file rt fm w (account_id acct) (balance acct)"

text \<open>
  \<^verbatim>\<open>deposit\<close> and \<^verbatim>\<open>withdraw\<close>: the pair \<^verbatim>\<open>(success, message)\<close> returned, the
  entity and the file system after the call.
\<close>

definition deposit ::
  "runtime \<Rightarrow> file_manager \<Rightarrow> pyval \<Rightarrow> bank_account \<times> world \<Rightarrow> (bool \<times> string) \<times> bank_account \<times> world" where
  "deposit rt fm amount s =
     (case s of (acct, w) \<Rightarrow>
        (case float_coerce rt amount of
           Inl e \<Rightarrow>
             if value_or_type_error e then ((False, ''Invalid amount format''), acct, w)
             else ((False, ''Deposit error: '' @ exn_msg e), acct, w)
         | Inr amount \<Rightarrow>
             if fle amount (Finite 0) then ((False, ''Deposit amount must be positive''), acct, w)
             else
               (let old_balance = balance acct;
                    acct1 = acct\<lparr>balance := fadd (balance acct) amount\<rparr>
                in case save_balance rt fm acct1 w of
                     (True, w1) \<Rightarrow>
                       ((True, ''Deposit successful. New balance: R'' @ format_2f (balance acct1)),
                        acct1, w1)
                   | (False, w1) \<Rightarrow>
                       ((False, ''Failed to save transaction to file''),
                        acct1\<lparr>balance := old_balance\<rparr>, w1))))"

definition withdraw ::
  "runtime \<Rightarrow> file_manager \<Rightarrow> pyval \<Rightarrow> bank_account \<times> world \<Rightarrow> (bool \<times> string) \<times> bank_account \<times> world" where
  "withdraw rt fm amount s =
     (case s of (acct, w) \<Rightarrow>
        (case float_coerce rt amount of
           Inl e \<Rightarrow>
             if value_or_type_error e then ((False, ''Invalid amount format''), acct, w)
             else ((False, ''Withdrawal error: '' @ exn_msg e), acct, w)
         | Inr amount \<Rightarrow>
             if fle amount (Finite 0) then
               ((False, ''Withdrawal amount must be positive''), acct, w)
             else if flt (balance acct) amount then
               ((False, ''Insufficient funds. Available: R'' @ format_2f (balance acct)), acct, w)
             else
               (let old_balance = balance acct;
                    acct1 = acct\<lparr>balance := fsub (balance acct) amount\<rparr>
                in case save_balance rt fm acct1 w of
                     (True, w1) \<Rightarrow>
                       ((True, ''Withdrawal successful. New balance: R'' @ format_2f (balance acct1)),
                        acct1, w1)
                   | (False, w1) \<Rightarrow>
                       ((False, ''Failed to save transaction to file''),
                        acct1\<lparr>balance := old_balance\<rparr>, w1))))"

text \<open>A call of one of the two methods, and a sequence of calls on one entity.\<close>

datatype call = Deposit pyval | Withdraw pyval

fun call_arg :: "call \<Rightarrow> pyval" where
  "call_arg (Deposit v) = v"
| "call_arg (Withdraw v) = v"

fun run_call :: "runtime \<Rightarrow> file_manager \<Rightarrow> call \<Rightarrow> bank_account \<times> world \<Rightarrow> bank_account \<times> world" where
  "run_call rt fm (Deposit v) s = snd (deposit rt fm v s)"
| "run_call rt fm (Withdraw v) s = snd (withdraw rt fm v s)"

fun run_calls :: "runtime \<Rightarrow> file_manager \<Rightarrow> call list \<Rightarrow> bank_account \<times> world \<Rightarrow> bank_account \<times> world" where
  "run_calls rt fm [] s = s"
| "run_calls rt fm (c # cs) s = run_calls rt fm cs (run_call rt fm c s)"

text \<open>
  The calls that keep a balance a number: the argument is not \<^verbatim>\<open>nan\<close>, and a withdrawal
  is not of \<^verbatim>\<open>inf\<close>. An argument that \<^verbatim>\<open>float()\<close> refuses is harmless.
\<close>

fun safe_call :: "runtime \<Rightarrow> call \<Rightarrow> bool" where
  "safe_call rt (Deposit v) = (float_coerce rt v \<noteq> Inr NaN)"
| "safe_call rt (Withdraw v) = (float_coerce rt v \<noteq> Inr NaN \<and> float_coerce rt v \<noteq> Inr PInf)"

section \<open>The validator of account names\<close>

text \<open>
  The list \<^verbatim>\<open>invalid_chars\<close> of the source; \<open>CHR 0x5C\<close> is the backslash and
  \<open>CHR 0x22\<close> the double quote.
\<close>

definition invalid_chars :: "char list" where
  "invalid_chars =
     [CHR ''<'', CHR ''>'', CHR ''/'', CHR 0x5C, CHR ''|'', CHR '':'', CHR ''*'', CHR ''?'', CHR 0x22]"

definition validate_account_name :: "string \<Rightarrow> bool \<times> string" where
  "validate_account_name name =
     (if name = [] \<or> strip name = [] then (False, ''Account name cannot be empty'')
      else
        (let name = strip name
         in if length name < 2 then (False, ''Account name must be at least 2 characters'')
            else if length name > 50 then (False, ''Account name cannot exceed 50 characters'')
            else if \<exists>char \<in> set invalid_chars. char \<in> set name then
              (False, ''Account name contains invalid characters'')
            else (True, ''Valid account name'')))"

section \<open>Environments of the examples\<close>

text \<open>
  A runtime that knows the strings of the examples, a file manager with the paths of the
  source, a clock, an empty file system where every operation succeeds and one where every
  write fails.
\<close>

definition example_runtime :: runtime where
  "example_runtime =
     \<lparr>float_of_str = (\<lambda>s. if s = ''50'' then Some (Finite (50 * 2 ^ 1074))
                            else if s = ''-5.0'' then Some (Finite (- 5 * 2 ^ 1074))
                            else if s = ''nan'' then Some NaN
                            else None),
      str_of_float = (\<lambda>x. if x = one_million then ''1000000.0''
                            else if x = NaN then ''nan'' else ''50.0''),
      json_loads = (\<lambda>s. if s = ''{}'' then Some (JObj [])
                          else if s = ''{1: Alice}'' then
                            Some (JObj [(''1'', account_info_of 1 ''Alice'' ''2024-01-01 12:00:00''
                                                one_million)])
                          else None),
      json_dumps = (\<lambda>j. if j = JObj [] then ''{}'' else ''{1: Alice}'')\<rparr>"

definition example_manager :: file_manager where
  "example_manager = \<lparr>accounts_folder = ''accounts'', registry_file = ''accounts_registry.json''\<rparr>"

definition example_clock :: clock where
  "example_clock = \<lparr>file_stamp = ''20240101_120000'', created_stamp = ''2024-01-01 12:00:00''\<rparr>"

definition empty_world :: world where
  "empty_world =
     \<lparr>files = (\<lambda>p. None), read_fails = (\<lambda>p. False), write_fails = (\<lambda>p. False),
      rename_fails = (\<lambda>p. False)\<rparr>"

definition read_only_world :: world where
  "read_only_world = empty_world\<lparr>write_fails := (\<lambda>p. True)\<rparr>"

text \<open>A registry file whose content is not JSON.\<close>

definition corrupt_world :: world where
  "corrupt_world = empty_world\<lparr>files := (\<lambda>p. None)(''accounts_registry.json'' \<mapsto> ''{not json'')\<rparr>"

text \<open>
  The balance file of account 1 with a blank content, and with a negative number.
\<close>

definition blank_world :: world where
  "blank_world = empty_world\<lparr>files := (\<lambda>p. None)(''accounts/account_1_balance.txt'' \<mapsto> ''  '')\<rparr>"

definition overdrawn_world :: world where
  "overdrawn_world = empty_world\<lparr>files := (\<lambda>p. None)(''accounts/account_1_balance.txt'' \<mapsto> ''-5.0'')\<rparr>"

section \<open>Facts about the floats\<close>

lemma bit_length_0 [simp]: "bit_length 0 = 0"
  by (simp add: bit_length.simps)

lemma bit_length_double: "0 < n \<Longrightarrow> bit_length (2 * n) = Suc (bit_length n)"
  by (subst bit_length.simps) simp

lemma bit_length_shift: "0 < n \<Longrightarrow> bit_length (n * 2 ^ k) = bit_length n + k"
proof (induction k)
  case 0
  then show ?case by simp
next
  case (Suc k)
  have "bit_length (n * 2 ^ Suc k) = bit_length (2 * (n * 2 ^ k))"
    by (simp add: mult.commute mult.left_commute)
  also have "\<dots> = Suc (bit_length (n * 2 ^ k))"
    using Suc.prems by (intro bit_length_double) simp
  finally show ?case using Suc by simp
qed

lemma rne_div_scale: "0 < c \<Longrightarrow> rne_div (n * c) (d * c) = rne_div n d"
  by (simp add: rne_div_def Let_def mult.commute [of _ c] mult.left_commute [of _ c])

lemma rne_div_exact: "0 < d \<Longrightarrow> rne_div (q * d) d = q"
  by (simp add: rne_div_def)

lemma round53_0 [simp]: "round53 0 = 0"
  by (simp add: round53_def rne_div_def)

text \<open>Rounding commutes with a scaling by a power of two.\<close>

lemma round53_shift: "round53 (m * 2 ^ k) = round53 m * 2 ^ k"
proof (cases "m = 0")
  case True
  then show ?thesis by simp
next
  case False
  then have bl: "bit_length (m * 2 ^ k) = bit_length m + k"
    by (simp add: bit_length_shift)
  show ?thesis
  proof (cases "53 \<le> bit_length m")
    case True
    then have s: "bit_length m + k - 53 = (bit_length m - 53) + k" by simp
    have "rne_div (m * 2 ^ k) (2 ^ (bit_length m - 53) * 2 ^ k) = rne_div m (2 ^ (bit_length m - 53))"
      by (rule rne_div_scale) simp
    then show ?thesis
      by (simp add: round53_def Let_def bl s power_add mult.assoc)
  next
    case False
    then have r: "round53 m = m" by (simp add: round53_def rne_div_def Let_def)
    define s where "s = bit_length m + k - 53"
    have "s \<le> k" using False by (simp add: s_def)
    then obtain j where k: "k = j + s" by (metis le_add_diff_inverse2)
    have "rne_div (m * 2 ^ k) (2 ^ s) = m * 2 ^ j"
      using rne_div_exact [of "2 ^ s" "m * 2 ^ j"] by (simp add: k power_add mult.assoc)
    then have "round53 (m * 2 ^ k) = m * 2 ^ k"
      by (simp add: round53_def Let_def bl s_def [symmetric]) (simp add: k power_add mult.assoc)
    then show ?thesis by (simp add: r)
  qed
qed

lemma of_exact_of_nat:
  "of_exact (int n) = (if float_limit \<le> round53 n then PInf else Finite (int (round53 n)))"
  by (simp add: of_exact_def Let_def)

lemma of_exact_minus_of_nat:
  "of_exact (- int n) =
     (if float_limit \<le> round53 n then (if n = 0 then PInf else NInf)
      else Finite (- int (round53 n)))"
  by (cases "n = 0") (simp_all add: of_exact_def Let_def)

lemma of_exact_shift:
  assumes "round53 m = r" and "r * 2 ^ k < float_limit"
  shows "of_exact (int m * 2 ^ k) = Finite (int r * 2 ^ k)"
    and "of_exact (- (int m * 2 ^ k)) = Finite (- (int r * 2 ^ k))"
proof -
  have i: "int m * 2 ^ k = int (m * 2 ^ k)" by simp
  have r: "round53 (m * 2 ^ k) = r * 2 ^ k"
    using assms(1) by (simp add: round53_shift)
  show "of_exact (int m * 2 ^ k) = Finite (int r * 2 ^ k)"
    unfolding i of_exact_of_nat r using assms(2) by simp
  show "of_exact (- (int m * 2 ^ k)) = Finite (- (int r * 2 ^ k))"
    unfolding i of_exact_minus_of_nat r using assms(2) by simp
qed

text \<open>
  The operations stay within the floats: every result of the rounding has 53 significant
  bits and is in range, so sums and differences of floats are floats.
\<close>

lemma bit_length_le: "n < 2 ^ k \<Longrightarrow> bit_length n \<le> k"
proof (induction k arbitrary: n)
  case 0
  then show ?case by simp
next
  case (Suc k)
  show ?case
  proof (cases "n = 0")
    case True
    then show ?thesis by simp
  next
    case False
    have "n div 2 < 2 ^ k" using Suc.prems by simp
    then have "bit_length (n div 2) \<le> k" by (rule Suc.IH)
    then show ?thesis using False by (subst bit_length.simps) simp
  qed
qed

lemma bit_length_bound: "n < 2 ^ bit_length n"
proof (induction n rule: bit_length.induct)
  case (1 n)
  show ?case
  proof (cases "n = 0")
    case True
    then show ?thesis by simp
  next
    case False
    then have "n div 2 < 2 ^ bit_length (n div 2)" by (rule "1.IH")
    then have "n < 2 * 2 ^ bit_length (n div 2)" by simp
    then show ?thesis using False by (subst bit_length.simps) simp
  qed
qed

lemma rne_div_le:
  assumes "n < 2 ^ (53 + s)"
  shows "rne_div n (2 ^ s) \<le> 2 ^ 53"
proof -
  have "n div 2 ^ s < 2 ^ 53"
    using assms by (simp add: power_add less_mult_imp_div_less mult.commute)
  then show ?thesis by (simp add: rne_div_def Let_def)
qed

lemma round53_is_double: "2 ^ (bit_length (round53 n) - 53) dvd round53 n"
proof -
  define s where "s = bit_length n - 53"
  define q where "q = rne_div n (2 ^ s)"
  have r: "round53 n = q * 2 ^ s"
    by (simp add: round53_def Let_def s_def q_def)
  have "n < 2 ^ bit_length n" by (rule bit_length_bound)
  also have "(2::nat) ^ bit_length n \<le> 2 ^ (53 + s)"
    by (rule power_increasing) (simp_all add: s_def)
  finally have q: "q \<le> 2 ^ 53" unfolding q_def by (rule rne_div_le)
  consider "q = 0" | "0 < q" "q < 2 ^ 53" | "q = 2 ^ 53" using q by linarith
  then show ?thesis
  proof cases
    case 1
    then show ?thesis by (simp add: r)
  next
    case 2
    then have "bit_length q \<le> 53" by (intro bit_length_le)
    then have "bit_length (q * 2 ^ s) - 53 \<le> s"
      using 2 by (simp add: bit_length_shift)
    then have "(2::nat) ^ (bit_length (q * 2 ^ s) - 53) dvd 2 ^ s"
      by (rule le_imp_power_dvd)
    then show ?thesis unfolding r by (rule dvd_mult)
  next
    case 3
    have "bit_length (1 * 2 ^ (53 + s)) = bit_length 1 + (53 + s)"
      by (rule bit_length_shift) simp
    moreover have "bit_length 1 = 1" by (simp add: bit_length.simps)
    ultimately have "bit_length (q * 2 ^ s) - 53 \<le> 53 + s"
      by (simp add: 3 power_add)
    then have "(2::nat) ^ (bit_length (q * 2 ^ s) - 53) dvd 2 ^ (53 + s)"
      by (rule le_imp_power_dvd)
    then show ?thesis unfolding r 3 by (simp add: power_add)
  qed
qed

lemma is_double_of_nat:
  "m < float_limit \<Longrightarrow> 2 ^ (bit_length m - 53) dvd m \<Longrightarrow> is_double (Finite (int m))"
  and is_double_minus_of_nat:
  "m < float_limit \<Longrightarrow> 2 ^ (bit_length m - 53) dvd m \<Longrightarrow> is_double (Finite (- int m))"
  by (simp_all add: is_double_def)

lemma is_double_of_exact: "is_double (of_exact i)"
proof -
  let ?m = "round53 (nat \<bar>i\<bar>)"
  have d: "2 ^ (bit_length ?m - 53) dvd ?m" by (rule round53_is_double)
  show ?thesis
  proof (cases "float_limit \<le> ?m")
    case True
    then show ?thesis by (simp add: of_exact_def Let_def is_double_def)
  next
    case False
    then have l: "?m < float_limit" by simp
    have "of_exact i = Finite (if i < 0 then - int ?m else int ?m)"
      using False by (simp only: of_exact_def Let_def if_False)
    then show ?thesis
      using is_double_of_nat [OF l d] is_double_minus_of_nat [OF l d] by (cases "i < 0") simp_all
  qed
qed

lemma is_double_special [simp]:
  "is_double NegZero" "is_double PInf" "is_double NInf" "is_double NaN" "is_double (Finite 0)"
  by (simp_all add: is_double_def float_limit_def)

lemma is_double_fneg: "is_double x \<Longrightarrow> is_double (fneg x)"
proof (cases x)
  case (Finite k)
  moreover assume "is_double x"
  ultimately have "is_double (Finite (- k))" by (simp add: is_double_def)
  then show ?thesis using Finite by simp
qed simp_all

lemma is_double_fadd: "is_double x \<Longrightarrow> is_double y \<Longrightarrow> is_double (fadd x y)"
  by (cases x; cases y) (simp_all add: is_double_of_exact)

lemma is_double_fsub: "is_double x \<Longrightarrow> is_double y \<Longrightarrow> is_double (fsub x y)"
  unfolding fsub_def by (intro is_double_fadd is_double_fneg)

lemma flt_pos_not_le: "flt (Finite 0) a \<Longrightarrow> \<not> fle a (Finite 0)"
  by (cases a) (auto simp: flt_def fle_def)

section \<open>Persistence failures\<close>

text \<open>
  C3: for every account entity and every positive amount, when the save of the new balance
  fails during \<^verbatim>\<open>deposit(amount)\<close> or \<^verbatim>\<open>withdraw(amount)\<close>, the operation reports
  failure and the entity is exactly what it was before the call: the balance in memory is
  the one before the operation.
\<close>

theorem save_failure_rolls_back:
  "(float_coerce rt amount = Inr a \<and> flt (Finite 0) a \<and>
    fst (save_balance rt fm (acct\<lparr>balance := fadd (balance acct) a\<rparr>) w) = False
    \<longrightarrow> fst (deposit rt fm amount (acct, w)) = (False, ''Failed to save transaction to file'')
        \<and> fst (snd (deposit rt fm amount (acct, w))) = acct)
   \<and>
   (float_coerce rt amount = Inr a \<and> flt (Finite 0) a \<and> \<not> flt (balance acct) a \<and>
    fst (save_balance rt fm (acct\<lparr>balance := fsub (balance acct) a\<rparr>) w) = False
    \<longrightarrow> fst (withdraw rt fm amount (acct, w)) = (False, ''Failed to save transaction to file'')
        \<and> fst (snd (withdraw rt fm amount (acct, w))) = acct)"
proof (intro conjI impI)
  assume h: "float_coerce rt amount = Inr a \<and> flt (Finite 0) a \<and>
    fst (save_balance rt fm (acct\<lparr>balance := fadd (balance acct) a\<rparr>) w) = False"
  then obtain w1 where s: "save_balance rt fm (acct\<lparr>balance := fadd (balance acct) a\<rparr>) w = (False, w1)"
    by (cases "save_balance rt fm (acct\<lparr>balance := fadd (balance acct) a\<rparr>) w") auto
  from h have n: "\<not> fle a (Finite 0)" by (simp add: flt_pos_not_le)
  from h s n show "fst (deposit rt fm amount (acct, w)) = (False, ''Failed to save transaction to file'')"
    by (simp add: deposit_def Let_def)
  from h s n show "fst (snd (deposit rt fm amount (acct, w))) = acct"
    by (simp add: deposit_def Let_def)
next
  assume h: "float_coerce rt amount = Inr a \<and> flt (Finite 0) a \<and> \<not> flt (balance acct) a \<and>
    fst (save_balance rt fm (acct\<lparr>balance := fsub (balance acct) a\<rparr>) w) = False"
  then obtain w1 where s: "save_balance rt fm (acct\<lparr>balance := fsub (balance acct) a\<rparr>) w = (False, w1)"
    by (cases "save_balance rt fm (acct\<lparr>balance := fsub (balance acct) a\<rparr>) w") auto
  from h have n: "\<not> fle a (Finite 0)" by (simp add: flt_pos_not_le)
  from h s n show "fst (withdraw rt fm amount (acct, w)) = (False, ''Failed to save transaction to file'')"
    by (simp add: withdraw_def Let_def)
  from h s n show "fst (snd (withdraw rt fm amount (acct, w))) = acct"
    by (simp add: withdraw_def Let_def)
qed

lemma save_fails_read_only:
  "fst (save_balance rt fm acct read_only_world) = False"
  by (simp add: save_balance_def save_balance_to_file_def Let_def write_text_def backup_copy_def
      read_only_world_def empty_world_def read_text_def path_exists_def)

theorem save_failure_rolls_back_witness:
  "float_coerce example_runtime (PFloat (Finite (25 * 2 ^ 1074))) = Inr (Finite (25 * 2 ^ 1074))
   \<and> flt (Finite 0) (Finite (25 * 2 ^ 1074))
   \<and> \<not> flt (Finite (50 * 2 ^ 1074)) (Finite (25 * 2 ^ 1074))
   \<and> fst (save_balance example_runtime example_manager
        \<lparr>account_id = 1, balance = fadd (Finite (50 * 2 ^ 1074)) (Finite (25 * 2 ^ 1074))\<rparr>
        read_only_world) = False
   \<and> fst (save_balance example_runtime example_manager
        \<lparr>account_id = 1, balance = fsub (Finite (50 * 2 ^ 1074)) (Finite (25 * 2 ^ 1074))\<rparr>
        read_only_world) = False
   \<and> fst (deposit example_runtime example_manager (PFloat (Finite (25 * 2 ^ 1074)))
        (\<lparr>account_id = 1, balance = Finite (50 * 2 ^ 1074)\<rparr>, read_only_world))
      = (False, ''Failed to save transaction to file'')
   \<and> fst (snd (deposit example_runtime example_manager (PFloat (Finite (25 * 2 ^ 1074)))
        (\<lparr>account_id = 1, balance = Finite (50 * 2 ^ 1074)\<rparr>, read_only_world)))
      = \<lparr>account_id = 1, balance = Finite (50 * 2 ^ 1074)\<rparr>
   \<and> fst (withdraw example_runtime example_manager (PFloat (Finite (25 * 2 ^ 1074)))
        (\<lparr>account_id = 1, balance = Finite (50 * 2 ^ 1074)\<rparr>, read_only_world))
      = (False, ''Failed to save transaction to file'')
   \<and> fst (snd (withdraw example_runtime example_manager (PFloat (Finite (25 * 2 ^ 1074)))
        (\<lparr>account_id = 1, balance = Finite (50 * 2 ^ 1074)\<rparr>, read_only_world)))
      = \<lparr>account_id = 1, balance = Finite (50 * 2 ^ 1074)\<rparr>"
  using save_failure_rolls_back [of example_runtime "PFloat (Finite (25 * 2 ^ 1074))"
      "Finite (25 * 2 ^ 1074)" example_manager
      "\<lparr>account_id = 1, balance = Finite (50 * 2 ^ 1074)\<rparr>" read_only_world]
    save_fails_read_only
  by (simp add: float_coerce_def flt_def)

section \<open>Withdrawals beyond the balance\<close>

lemma float_of_int_small:
  "round53 n = n \<Longrightarrow> n * 2 ^ 1074 < float_limit \<Longrightarrow> float_of_int (int n) = Finite (int n * 2 ^ 1074)"
  unfolding float_of_int_def by (rule of_exact_shift(1))

lemma round53_100: "round53 100 = 100"
  by (simp add: round53_def rne_div_def bit_length.simps)

lemma float_of_int_100: "float_of_int 100 = Finite (100 * 2 ^ 1074)"
  using float_of_int_small [of 100] round53_100 by (simp add: float_limit_def)

lemma format_2f_50: "format_2f (Finite (50 * 2 ^ 1074)) = ''50.00''"
  by (simp add: format_2f_def hundredths_def rne_div_def group_thousands.simps str_nat.simps
      digit_char_def)

text \<open>
  C2: for every account entity and every amount with \<open>0 < amount\<close> and
  \<open>amount > balance\<close>, \<^verbatim>\<open>withdraw(amount)\<close> fails with the insufficient-funds message,
  which reports the available balance, and leaves the entity (and the file system) as it
  was; \<^verbatim>\<open>withdraw(100)\<close> on the balance \<open>50.00\<close> fails reporting \<open>50.00\<close> and the balance
  stays \<open>50.00\<close>.
\<close>

theorem withdraw_insufficient_funds:
  "(float_coerce rt amount = Inr a \<and> flt (Finite 0) a \<and> flt (balance acct) a
    \<longrightarrow> withdraw rt fm amount (acct, w)
        = ((False, ''Insufficient funds. Available: R'' @ format_2f (balance acct)), acct, w))
   \<and> withdraw rt fm (PInt 100) (\<lparr>account_id = i, balance = Finite (50 * 2 ^ 1074)\<rparr>, w)
       = ((False, ''Insufficient funds. Available: R50.00''),
          \<lparr>account_id = i, balance = Finite (50 * 2 ^ 1074)\<rparr>, w)"
proof (intro conjI impI)
  assume h: "float_coerce rt amount = Inr a \<and> flt (Finite 0) a \<and> flt (balance acct) a"
  then have "\<not> fle a (Finite 0)" by (simp add: flt_pos_not_le)
  with h show "withdraw rt fm amount (acct, w)
        = ((False, ''Insufficient funds. Available: R'' @ format_2f (balance acct)), acct, w)"
    by (simp add: withdraw_def)
next
  have c: "float_coerce rt (PInt 100) = Inr (Finite (100 * 2 ^ 1074))"
    by (simp add: float_coerce_def float_of_int_100)
  have l: "\<not> fle (Finite (100 * 2 ^ 1074)) (Finite 0)" by (simp add: fle_def)
  have g: "flt (Finite (50 * 2 ^ 1074)) (Finite (100 * 2 ^ 1074))" by (simp add: flt_def)
  show "withdraw rt fm (PInt 100) (\<lparr>account_id = i, balance = Finite (50 * 2 ^ 1074)\<rparr>, w)
       = ((False, ''Insufficient funds. Available: R50.00''),
          \<lparr>account_id = i, balance = Finite (50 * 2 ^ 1074)\<rparr>, w)"
    unfolding withdraw_def using c l g format_2f_50 by simp
qed

theorem withdraw_insufficient_funds_witness:
  "float_coerce example_runtime (PStr ''50'') = Inr (Finite (50 * 2 ^ 1074))
   \<and> flt (Finite 0) (Finite (50 * 2 ^ 1074))
   \<and> flt (Finite (25 * 2 ^ 1074)) (Finite (50 * 2 ^ 1074))
   \<and> withdraw example_runtime example_manager (PStr ''50'')
        (\<lparr>account_id = 1, balance = Finite (25 * 2 ^ 1074)\<rparr>, empty_world)
      = ((False, ''Insufficient funds. Available: R'' @ format_2f (Finite (25 * 2 ^ 1074))),
         \<lparr>account_id = 1, balance = Finite (25 * 2 ^ 1074)\<rparr>, empty_world)"
  using withdraw_insufficient_funds [of example_runtime "PStr ''50''" "Finite (50 * 2 ^ 1074)"
      "\<lparr>account_id = 1, balance = Finite (25 * 2 ^ 1074)\<rparr>" example_manager empty_world]
  by (simp add: float_coerce_def example_runtime_def flt_def)

section \<open>The balance stays non-negative\<close>

lemma of_exact_nonneg: "0 \<le> i \<Longrightarrow> fle (Finite 0) (of_exact i)"
  by (simp add: of_exact_def Let_def fle_def)

lemma fadd_nonneg:
  assumes "fle (Finite 0) b" and "\<not> fle a (Finite 0)" and "a \<noteq> NaN"
  shows "fle (Finite 0) (fadd b a)"
proof (cases b)
  case (Finite k)
  show ?thesis
  proof (cases a)
    case (Finite j)
    then have "0 \<le> k + j" using assms \<open>b = Finite k\<close> by (simp add: fle_def)
    then show ?thesis using Finite \<open>b = Finite k\<close> by (simp add: of_exact_nonneg)
  qed (use assms Finite in \<open>auto simp: fle_def\<close>)
qed (use assms in \<open>cases a; auto simp: fle_def\<close>)+

lemma fsub_nonneg:
  assumes "fle (Finite 0) b" and "\<not> fle a (Finite 0)" and "\<not> flt b a"
    and "a \<noteq> NaN" and "a \<noteq> PInf"
  shows "fle (Finite 0) (fsub b a)"
proof (cases b)
  case (Finite k)
  show ?thesis
  proof (cases a)
    case (Finite j)
    then have "0 \<le> k - j" "j \<noteq> 0"
      using assms \<open>b = Finite k\<close> by (simp_all add: fle_def flt_def)
    then show ?thesis
      using Finite \<open>b = Finite k\<close> by (simp add: fsub_def of_exact_nonneg)
  qed (use assms Finite in \<open>auto simp: fle_def flt_def fsub_def\<close>)
qed (use assms in \<open>cases a; auto simp: fle_def flt_def fsub_def\<close>)+

lemma deposit_keeps_nonneg:
  assumes "fle (Finite 0) (balance acct)" and "float_coerce rt v \<noteq> Inr NaN"
  shows "fle (Finite 0) (balance (fst (snd (deposit rt fm v (acct, w)))))"
proof (cases "float_coerce rt v")
  case (Inl e)
  then show ?thesis using assms by (simp add: deposit_def)
next
  case (Inr a)
  then have "a \<noteq> NaN" using assms by simp
  then show ?thesis using assms Inr
    by (auto simp: deposit_def Let_def fadd_nonneg split: prod.splits bool.splits)
qed

lemma withdraw_keeps_nonneg:
  assumes "fle (Finite 0) (balance acct)" and "float_coerce rt v \<noteq> Inr NaN"
    and "float_coerce rt v \<noteq> Inr PInf"
  shows "fle (Finite 0) (balance (fst (snd (withdraw rt fm v (acct, w)))))"
proof (cases "float_coerce rt v")
  case (Inl e)
  then show ?thesis using assms by (simp add: withdraw_def)
next
  case (Inr a)
  then have "a \<noteq> NaN" "a \<noteq> PInf" using assms by simp_all
  then show ?thesis using assms Inr
    by (auto simp: withdraw_def Let_def fsub_nonneg split: prod.splits bool.splits)
qed

lemma run_call_keeps_nonneg:
  "fle (Finite 0) (balance (fst s)) \<Longrightarrow> safe_call rt c
   \<Longrightarrow> fle (Finite 0) (balance (fst (run_call rt fm c s)))"
  by (cases c; cases s) (simp_all add: deposit_keeps_nonneg withdraw_keeps_nonneg)

lemma run_calls_keep_nonneg:
  "fle (Finite 0) (balance (fst s)) \<Longrightarrow> \<forall>c \<in> set cs. safe_call rt c
   \<Longrightarrow> fle (Finite 0) (balance (fst (run_calls rt fm cs s)))"
  by (induction cs arbitrary: s) (simp_all add: run_call_keeps_nonneg)

text \<open>
  Where the guards of the two methods hold, the balance stays non-negative: for every
  account entity whose loaded balance is non-negative, after any finite sequence of
  \<^verbatim>\<open>deposit\<close> and \<^verbatim>\<open>withdraw\<close> calls whose arguments are not \<^verbatim>\<open>nan\<close> and whose
  withdrawals are not of \<^verbatim>\<open>inf\<close>, whatever the file system does, \<^verbatim>\<open>get_balance()\<close>
  returns a value \<open>\<ge> 0\<close>. The argument \<^verbatim>\<open>nan\<close> is the subject of the last section.
\<close>

theorem balance_stays_nonnegative:
  "fle (Finite 0) (balance acct) \<Longrightarrow> \<forall>c \<in> set cs. safe_call rt c
   \<Longrightarrow> fle (Finite 0) (get_balance (fst (run_calls rt fm cs (acct, w))))"
  unfolding get_balance_def using run_calls_keep_nonneg [of "(acct, w)" cs rt fm] by simp

theorem balance_stays_nonnegative_witness:
  "fle (Finite 0) (Finite (50 * 2 ^ 1074))
   \<and> safe_call example_runtime (Deposit (PStr ''50''))
   \<and> safe_call example_runtime (Withdraw (PFloat (Finite (25 * 2 ^ 1074))))
   \<and> safe_call example_runtime (Deposit PNone)
   \<and> fle (Finite 0) (get_balance (fst (run_calls example_runtime example_manager
        [Deposit (PStr ''50''), Withdraw (PFloat (Finite (25 * 2 ^ 1074))), Deposit PNone]
        (\<lparr>account_id = 1, balance = Finite (50 * 2 ^ 1074)\<rparr>, empty_world))))"
proof -
  have b: "fle (Finite 0) (balance \<lparr>account_id = 1, balance = Finite (50 * 2 ^ 1074)\<rparr>)"
    by (simp add: fle_def)
  have c: "safe_call example_runtime (Deposit (PStr ''50''))"
    "safe_call example_runtime (Withdraw (PFloat (Finite (25 * 2 ^ 1074))))"
    "safe_call example_runtime (Deposit PNone)"
    by (simp_all add: float_coerce_def example_runtime_def)
  then have a: "\<forall>c \<in> set [Deposit (PStr ''50''), Withdraw (PFloat (Finite (25 * 2 ^ 1074))),
                  Deposit PNone]. safe_call example_runtime c"
    by simp
  show ?thesis
    using b c balance_stays_nonnegative [OF b a, of example_manager empty_world] by simp
qed

section \<open>A withdrawal followed by a deposit of the same amount\<close>

lemma of_exact_is_double:
  assumes "is_double (Finite k)"
  shows "of_exact k = Finite k"
proof -
  define n where "n = nat \<bar>k\<bar>"
  define s where "s = bit_length n - 53"
  from assms have d: "2 ^ s dvd n" and l: "n < float_limit"
    by (simp_all add: is_double_def n_def s_def)
  from d obtain q where q: "n = q * 2 ^ s" by (auto simp: dvd_def mult.commute)
  have "rne_div (q * 2 ^ s) (2 ^ s) = q"
    by (rule rne_div_exact) simp
  then have "rne_div n (2 ^ s) * 2 ^ s = n"
    by (simp only: q)
  moreover have "round53 n = rne_div n (2 ^ s) * 2 ^ s"
    by (simp only: round53_def Let_def s_def)
  ultimately have "round53 n = n" by simp
  then show ?thesis
    using l by (auto simp: of_exact_def Let_def n_def [symmetric] not_le) (simp_all add: n_def)
qed

lemma fle_not_flt: "fle a b \<Longrightarrow> \<not> flt b a"
  by (cases a; cases b) (auto simp: fle_def flt_def)

lemma fadd_scaled:
  "round53 m = r \<Longrightarrow> r * 2 ^ k < float_limit \<Longrightarrow> int m * 2 ^ k = x + y
   \<Longrightarrow> fadd (Finite x) (Finite y) = Finite (int r * 2 ^ k)"
  using of_exact_shift(1) [of m r k] by simp

lemma fsub_scaled:
  "y \<noteq> 0 \<Longrightarrow> round53 m = r \<Longrightarrow> r * 2 ^ k < float_limit \<Longrightarrow> int m * 2 ^ k = x - y
   \<Longrightarrow> fsub (Finite x) (Finite y) = Finite (int r * 2 ^ k)"
  using of_exact_shift(1) [of m r k] by (simp add: fsub_def)

lemma withdraw_success:
  assumes "float_coerce rt amount = Inr a" and "flt (Finite 0) a" and "fle a (balance acct)"
    and "fst (fst (withdraw rt fm amount (acct, w)))"
  shows "fst (snd (withdraw rt fm amount (acct, w))) = acct\<lparr>balance := fsub (balance acct) a\<rparr>"
  using assms flt_pos_not_le [of a] fle_not_flt [of a "balance acct"]
  by (auto simp: withdraw_def Let_def split: prod.splits bool.splits)

lemma deposit_success:
  assumes "float_coerce rt amount = Inr a" and "flt (Finite 0) a"
    and "fst (fst (deposit rt fm amount (acct, w)))"
  shows "fst (snd (deposit rt fm amount (acct, w))) = acct\<lparr>balance := fadd (balance acct) a\<rparr>"
  using assms flt_pos_not_le [of a]
  by (auto simp: deposit_def Let_def split: prod.splits bool.splits)

lemma exact_round_trip:
  assumes "is_double (Finite b)" and "is_double (Finite (b - a))" and "a \<noteq> 0"
  shows "fadd (fsub (Finite b) (Finite a)) (Finite a) = Finite b"
proof -
  have "fsub (Finite b) (Finite a) = Finite (b - a)"
    using assms by (simp add: fsub_def of_exact_is_double)
  then show ?thesis using assms by (simp add: of_exact_is_double)
qed

text \<open>
  C6, amended: for every account entity with balance \<open>b\<close> and every amount \<open>a\<close> with
  \<open>0 < a \<le> b\<close>, \<^verbatim>\<open>withdraw(a)\<close> followed by \<^verbatim>\<open>deposit(a)\<close>, both reporting success,
  leaves the balance \<open>(b - a) + a\<close> as the floats compute it, each operation rounded to the
  nearest float; it is exactly \<open>b\<close> (and the entity is what it was) whenever \<open>b\<close> and
  \<open>a\<close> are finite and the difference \<open>b - a\<close> is itself a float.
\<close>

theorem withdraw_then_deposit:
  assumes "float_coerce rt amount = Inr a" and "flt (Finite 0) a" and "fle a (balance acct)"
    and "fst (fst (withdraw rt fm amount (acct, w)))"
    and "fst (fst (deposit rt fm amount (snd (withdraw rt fm amount (acct, w)))))"
  shows "fst (snd (deposit rt fm amount (snd (withdraw rt fm amount (acct, w)))))
           = acct\<lparr>balance := fadd (fsub (balance acct) a) a\<rparr>
         \<and> (is_double (balance acct) \<and> exact_difference (balance acct) a
              \<longrightarrow> fst (snd (deposit rt fm amount (snd (withdraw rt fm amount (acct, w))))) = acct)"
proof -
  obtain r acct1 w1 where w: "withdraw rt fm amount (acct, w) = (r, acct1, w1)"
    by (cases "withdraw rt fm amount (acct, w)") auto
  have a1: "acct1 = acct\<lparr>balance := fsub (balance acct) a\<rparr>"
    using withdraw_success [OF assms(1-4)] w by simp
  have "fst (snd (deposit rt fm amount (acct1, w1))) = acct1\<lparr>balance := fadd (balance acct1) a\<rparr>"
    using assms(5) w by (intro deposit_success [OF assms(1,2)]) simp
  then have main: "fst (snd (deposit rt fm amount (snd (withdraw rt fm amount (acct, w)))))
           = acct\<lparr>balance := fadd (fsub (balance acct) a) a\<rparr>"
    by (simp add: w a1)
  have "fst (snd (deposit rt fm amount (snd (withdraw rt fm amount (acct, w))))) = acct"
    if h: "is_double (balance acct) \<and> exact_difference (balance acct) a"
  proof -
    from h obtain kb ka where k: "balance acct = Finite kb" "a = Finite ka"
      "is_double (Finite (kb - ka))"
      by (auto simp: exact_difference_def split: pyfloat.splits)
    have "ka \<noteq> 0" using assms(2) k by (auto simp: flt_def)
    then have "fadd (fsub (balance acct) a) a = balance acct"
      using h k by (simp add: exact_round_trip)
    then show ?thesis by (simp add: main)
  qed
  with main show ?thesis by blast
qed

lemma is_double_scaled:
  assumes "bit_length m \<le> 53" and "m * 2 ^ k < float_limit"
  shows "is_double (Finite (int m * 2 ^ k))"
proof -
  have n: "nat \<bar>int m * 2 ^ k\<bar> = m * 2 ^ k"
    by (simp add: abs_mult nat_mult_distrib nat_power_eq)
  have "bit_length (m * 2 ^ k) - 53 \<le> k"
    using assms(1) by (cases "m = 0") (simp_all add: bit_length_shift)
  then have "(2::nat) ^ (bit_length (m * 2 ^ k) - 53) dvd 2 ^ k"
    by (rule le_imp_power_dvd)
  then have "2 ^ (bit_length (m * 2 ^ k) - 53) dvd m * 2 ^ k"
    by (rule dvd_mult)
  then show ?thesis
    using assms(2) unfolding is_double_def pyfloat.case n by simp
qed

lemma fle_zero_not_flt: "fle (Finite 0) x \<Longrightarrow> \<not> flt x (Finite 0)"
  by (rule fle_not_flt)

lemma save_balance_writable:
  assumes "\<not> flt (balance acct) (Finite 0)" and "write_fails w = (\<lambda>p. False)"
  shows "\<exists>w'. save_balance rt fm acct w = (True, w') \<and> write_fails w' = (\<lambda>p. False)"
  using assms
  by (simp add: save_balance_def save_balance_to_file_def Let_def write_text_def backup_copy_def
      read_text_def split: option.splits)

text \<open>On a file system where every write succeeds, the two operations succeed.\<close>

lemma withdraw_writable:
  assumes "float_coerce rt amount = Inr a" and "flt (Finite 0) a" and "fle a (balance acct)"
    and "fle (Finite 0) (fsub (balance acct) a)" and "write_fails w = (\<lambda>p. False)"
  shows "fst (fst (withdraw rt fm amount (acct, w)))
         \<and> fst (snd (withdraw rt fm amount (acct, w))) = acct\<lparr>balance := fsub (balance acct) a\<rparr>
         \<and> write_fails (snd (snd (withdraw rt fm amount (acct, w)))) = (\<lambda>p. False)"
proof -
  have "\<not> flt (balance (acct\<lparr>balance := fsub (balance acct) a\<rparr>)) (Finite 0)"
    using assms(4) by (simp add: fle_zero_not_flt)
  from save_balance_writable [OF this assms(5), of rt fm] obtain w'
    where "save_balance rt fm (acct\<lparr>balance := fsub (balance acct) a\<rparr>) w = (True, w')"
      and "write_fails w' = (\<lambda>p. False)" by blast
  then show ?thesis
    using assms(1) flt_pos_not_le [OF assms(2)] fle_not_flt [OF assms(3)]
    by (simp add: withdraw_def Let_def)
qed

lemma deposit_writable:
  assumes "float_coerce rt amount = Inr a" and "flt (Finite 0) a"
    and "fle (Finite 0) (fadd (balance acct) a)" and "write_fails w = (\<lambda>p. False)"
  shows "fst (fst (deposit rt fm amount (acct, w)))
         \<and> fst (snd (deposit rt fm amount (acct, w))) = acct\<lparr>balance := fadd (balance acct) a\<rparr>
         \<and> write_fails (snd (snd (deposit rt fm amount (acct, w)))) = (\<lambda>p. False)"
proof -
  have "\<not> flt (balance (acct\<lparr>balance := fadd (balance acct) a\<rparr>)) (Finite 0)"
    using assms(3) by (simp add: fle_zero_not_flt)
  from save_balance_writable [OF this assms(4), of rt fm] obtain w'
    where "save_balance rt fm (acct\<lparr>balance := fadd (balance acct) a\<rparr>) w = (True, w')"
      and "write_fails w' = (\<lambda>p. False)" by blast
  then show ?thesis
    using assms(1) flt_pos_not_le [OF assms(2)]
    by (simp add: deposit_def Let_def)
qed

lemma flt_zero_scaled: "0 < m \<Longrightarrow> flt (Finite 0) (Finite (m * 2 ^ k))"
  by (simp add: flt_def)

lemma fle_zero_scaled: "0 \<le> m \<Longrightarrow> fle (Finite 0) (Finite (m * 2 ^ k))"
  by (simp add: fle_def)

lemma fle_scaled: "m * 2 ^ j \<le> n \<Longrightarrow> fle (Finite (m * 2 ^ (j + k))) (Finite (n * 2 ^ k))"
  by (simp add: fle_def power_add mult.assoc [symmetric])

theorem withdraw_then_deposit_witness:
  "float_coerce example_runtime (PFloat (Finite (25 * 2 ^ 1074))) = Inr (Finite (25 * 2 ^ 1074))
   \<and> flt (Finite 0) (Finite (25 * 2 ^ 1074))
   \<and> fle (Finite (25 * 2 ^ 1074)) (Finite (50 * 2 ^ 1074))
   \<and> is_double (Finite (50 * 2 ^ 1074))
   \<and> exact_difference (Finite (50 * 2 ^ 1074)) (Finite (25 * 2 ^ 1074))
   \<and> fst (fst (withdraw example_runtime example_manager (PFloat (Finite (25 * 2 ^ 1074)))
        (\<lparr>account_id = 1, balance = Finite (50 * 2 ^ 1074)\<rparr>, empty_world)))
   \<and> fst (fst (deposit example_runtime example_manager (PFloat (Finite (25 * 2 ^ 1074)))
        (snd (withdraw example_runtime example_manager (PFloat (Finite (25 * 2 ^ 1074)))
          (\<lparr>account_id = 1, balance = Finite (50 * 2 ^ 1074)\<rparr>, empty_world)))))
   \<and> fst (snd (deposit example_runtime example_manager (PFloat (Finite (25 * 2 ^ 1074)))
        (snd (withdraw example_runtime example_manager (PFloat (Finite (25 * 2 ^ 1074)))
          (\<lparr>account_id = 1, balance = Finite (50 * 2 ^ 1074)\<rparr>, empty_world)))))
      = \<lparr>account_id = 1, balance = Finite (50 * 2 ^ 1074)\<rparr>"
proof -
  let ?a = "Finite (25 * 2 ^ 1074)" and ?b = "Finite (50 * 2 ^ 1074)"
  let ?acct = "\<lparr>account_id = 1, balance = ?b\<rparr>"
  let ?rt = example_runtime and ?fm = example_manager
  have bl: "bit_length 50 \<le> 53" "bit_length 25 \<le> 53"
    by (simp_all add: bit_length.simps)
  have d1: "is_double ?b"
    using is_double_scaled [of 50 1074] bl by (simp add: float_limit_def)
  have d2: "is_double ?a"
    using is_double_scaled [of 25 1074] bl by (simp add: float_limit_def)
  have eq: "(50 * 2 ^ 1074 - 25 * 2 ^ 1074 :: int) = 25 * 2 ^ 1074" by simp
  have x: "exact_difference ?b ?a"
    unfolding exact_difference_def prod.case pyfloat.case eq by (rule d2)
  have c: "float_coerce ?rt (PFloat ?a) = Inr ?a"
    by (simp add: float_coerce_def)
  have p: "flt (Finite 0) ?a" by (rule flt_zero_scaled) simp
  have b: "balance ?acct = ?b" by (simp only: select_convs)
  have l': "fle ?a ?b" using fle_scaled [of 25 0 50 1074] by simp
  have l: "fle ?a (balance ?acct)" unfolding b by (rule l')
  have s: "fsub (balance ?acct) ?a = ?a"
    using d2 by (simp add: fsub_def of_exact_is_double)
  have e: "write_fails empty_world = (\<lambda>p. False)" by (simp add: empty_world_def)
  have "fle (Finite 0) (fsub (balance ?acct) ?a)"
    unfolding s by (rule fle_zero_scaled) simp
  note W = withdraw_writable [OF c p l this e, of ?fm]
  obtain r acct1 w1 where
    w1: "withdraw ?rt ?fm (PFloat ?a) (?acct, empty_world) = (r, acct1, w1)"
    by (cases "withdraw ?rt ?fm (PFloat ?a) (?acct, empty_world)") auto
  have acct1: "balance acct1 = ?a" and w1f: "write_fails w1 = (\<lambda>p. False)"
    using W s unfolding w1 by simp_all
  have a: "fadd (balance acct1) ?a = ?b"
    unfolding acct1 using d1 by (simp add: of_exact_is_double)
  have "fle (Finite 0) (fadd (balance acct1) ?a)"
    unfolding a by (rule fle_zero_scaled) simp
  note D = deposit_writable [OF c p this w1f, of ?fm]
  have w: "fst (fst (withdraw ?rt ?fm (PFloat ?a) (?acct, empty_world)))"
    using W by blast
  have d: "fst (fst (deposit ?rt ?fm (PFloat ?a) (snd (withdraw ?rt ?fm (PFloat ?a) (?acct, empty_world)))))"
    using D unfolding w1 by simp
  have "is_double (balance ?acct) \<and> exact_difference (balance ?acct) ?a"
    unfolding b using d1 x by (rule conjI)
  then have f: "fst (snd (deposit ?rt ?fm (PFloat ?a) (snd (withdraw ?rt ?fm (PFloat ?a) (?acct, empty_world)))))
      = ?acct"
    by (rule withdraw_then_deposit [OF c p l w d, THEN conjunct2, rule_format])
  from c p l' d1 x w d f show ?thesis by (intro conjI)
qed

text \<open>
  C6 as stated fails where the subtraction rounds: with the balance \<open>0.9\<close>
  (\<open>8106479329266893 \<cdot> 2\<^sup>-\<^sup>5\<^sup>3\<close>) and the amount \<open>0.2\<close> (\<open>7205759403792794 \<cdot> 2\<^sup>-\<^sup>5\<^sup>5\<close>)
  both calls succeed and the balance is \<open>8106479329266892 \<cdot> 2\<^sup>-\<^sup>5\<^sup>3\<close>, which Python prints
  as \<^verbatim>\<open>0.8999999999999999\<close>.
\<close>

theorem withdraw_then_deposit_counterexample:
  "flt (Finite 0) (Finite (7205759403792794 * 2 ^ 1019))
   \<and> fle (Finite (7205759403792794 * 2 ^ 1019)) (Finite (8106479329266893 * 2 ^ 1021))
   \<and> fst (fst (withdraw example_runtime example_manager (PFloat (Finite (7205759403792794 * 2 ^ 1019)))
        (\<lparr>account_id = 1, balance = Finite (8106479329266893 * 2 ^ 1021)\<rparr>, empty_world)))
   \<and> fst (fst (deposit example_runtime example_manager (PFloat (Finite (7205759403792794 * 2 ^ 1019)))
        (snd (withdraw example_runtime example_manager (PFloat (Finite (7205759403792794 * 2 ^ 1019)))
          (\<lparr>account_id = 1, balance = Finite (8106479329266893 * 2 ^ 1021)\<rparr>, empty_world)))))
   \<and> get_balance (fst (snd (deposit example_runtime example_manager
        (PFloat (Finite (7205759403792794 * 2 ^ 1019)))
        (snd (withdraw example_runtime example_manager (PFloat (Finite (7205759403792794 * 2 ^ 1019)))
          (\<lparr>account_id = 1, balance = Finite (8106479329266893 * 2 ^ 1021)\<rparr>, empty_world))))))
      = Finite (8106479329266892 * 2 ^ 1021)
   \<and> Finite (8106479329266892 * 2 ^ 1021) \<noteq> Finite (8106479329266893 * 2 ^ 1021)"
proof -
  let ?a = "Finite (7205759403792794 * 2 ^ 1019)" and ?b = "Finite (8106479329266893 * 2 ^ 1021)"
  let ?acct = "\<lparr>account_id = 1, balance = ?b\<rparr>"
  let ?rt = example_runtime and ?fm = example_manager
  have c: "float_coerce ?rt (PFloat ?a) = Inr ?a"
    by (simp add: float_coerce_def)
  have p: "flt (Finite 0) ?a" by (rule flt_zero_scaled) simp
  have b: "balance ?acct = ?b" by (simp only: select_convs)
  have l': "fle ?a ?b" by (simp add: fle_def)
  have l: "fle ?a (balance ?acct)" unfolding b by (rule l')
  have r1: "round53 25220157913274778 = 25220157913274776"
    by (simp add: round53_def rne_div_def bit_length.simps)
  have r2: "round53 32425917317067570 = 32425917317067568"
    by (simp add: round53_def rne_div_def bit_length.simps)
  have s: "fsub (balance ?acct) ?a = Finite (int 25220157913274776 * 2 ^ 1019)"
    unfolding b by (rule fsub_scaled [OF _ r1]) (simp_all add: float_limit_def)
  have e: "write_fails empty_world = (\<lambda>p. False)" by (simp add: empty_world_def)
  have "fle (Finite 0) (fsub (balance ?acct) ?a)"
    unfolding s by (rule fle_zero_scaled) simp
  note W = withdraw_writable [OF c p l this e, of ?fm]
  obtain r acct1 w1 where
    w1: "withdraw ?rt ?fm (PFloat ?a) (?acct, empty_world) = (r, acct1, w1)"
    by (cases "withdraw ?rt ?fm (PFloat ?a) (?acct, empty_world)") auto
  have acct1: "balance acct1 = Finite (int 25220157913274776 * 2 ^ 1019)"
    and w1f: "write_fails w1 = (\<lambda>p. False)"
    using W unfolding w1 s by simp_all
  have a: "fadd (balance acct1) ?a = Finite (int 32425917317067568 * 2 ^ 1019)"
    unfolding acct1 by (rule fadd_scaled [OF r2]) (simp_all add: float_limit_def)
  have "fle (Finite 0) (fadd (balance acct1) ?a)"
    unfolding a by (rule fle_zero_scaled) simp
  note D = deposit_writable [OF c p this w1f, of ?fm]
  have w: "fst (fst (withdraw ?rt ?fm (PFloat ?a) (?acct, empty_world)))"
    using W by blast
  have d: "fst (fst (deposit ?rt ?fm (PFloat ?a) (snd (withdraw ?rt ?fm (PFloat ?a) (?acct, empty_world)))))"
    using D unfolding w1 by simp
  have v: "Finite (int 32425917317067568 * 2 ^ 1019) = Finite (8106479329266892 * 2 ^ 1021)"
    by simp
  have f: "get_balance (fst (snd (deposit ?rt ?fm (PFloat ?a)
      (snd (withdraw ?rt ?fm (PFloat ?a) (?acct, empty_world)))))) = Finite (8106479329266892 * 2 ^ 1021)"
    using a D unfolding w1 get_balance_def by simp
  have n: "Finite (8106479329266892 * 2 ^ 1021) \<noteq> ?b" by simp
  from p l' w d f n show ?thesis by (intro conjI)
qed

section \<open>The identifier of a new account\<close>




lemma next_account_id_free: "str_nat n \<notin> set keys \<Longrightarrow> next_account_id keys n = n"
  by (subst next_account_id.simps) simp


lemma str_nat_1: "str_nat 1 = ''1''" and str_nat_2: "str_nat (Suc 1) = ''2''"
  by (simp_all add: str_nat.simps digit_char_def)


lemma load_json_file_write_fails:
  "write_fails (snd (load_json_file rt stamp w p)) = write_fails w"
  by (simp add: load_json_file_def Let_def rename_file_def split: option.splits)

lemma save_json_file_writable:
  assumes "write_fails w = (\<lambda>p. False)"
  shows "\<exists>w'. save_json_file rt w p d = (True, w') \<and> write_fails w' = (\<lambda>p. False)"
  using assms
  by (simp add: save_json_file_def Let_def write_text_def backup_copy_def read_text_def
      split: option.splits)

lemma save_balance_to_file_writable:
  assumes "\<not> flt b (Finite 0)" and "write_fails w = (\<lambda>p. False)"
  shows "\<exists>w'. save_balance_to_file rt fm w i b = (True, w') \<and> write_fails w' = (\<lambda>p. False)"
  using assms
  by (simp add: save_balance_to_file_def Let_def write_text_def backup_copy_def read_text_def
      split: option.splits)


lemma create_succeeds:
  assumes "get_accounts_list rt fm clk w = (JObj accounts, w1)"
    and "strip account_name \<noteq> []" and "float_coerce rt initial_balance = Inr ib"
    and "fle (Finite 0) ib" and "write_fails w = (\<lambda>p. False)"
  shows "\<exists>w'. create_new_account rt fm clk w account_name initial_balance
     = (Inr (next_account_id (map fst accounts) 1,
             account_info_of (next_account_id (map fst accounts) 1) account_name (created_stamp clk) ib),
        w')"
proof -
  let ?i = "next_account_id (map fst accounts) 1"
  let ?info = "account_info_of ?i account_name (created_stamp clk) ib"
  have n: "account_name \<noteq> []" using assms(2) by (auto simp: strip_def)
  have "write_fails w1 = (\<lambda>p. False)"
    using load_json_file_write_fails [of rt "file_stamp clk" w "registry_file fm"] assms(1,5)
    by (simp add: get_accounts_list_def)
  from save_json_file_writable [OF this, of rt "registry_file fm" "JObj (AList.update (str_nat ?i) ?info accounts)"]
  obtain w2 where w2: "save_accounts_list rt fm w1 (JObj (AList.update (str_nat ?i) ?info accounts)) = (True, w2)"
    and f2: "write_fails w2 = (\<lambda>p. False)"
    by (auto simp: save_accounts_list_def)
  have nz: "\<not> flt ib (Finite 0)" using assms(4) by (rule fle_zero_not_flt)
  from save_balance_to_file_writable [OF nz f2, of rt fm "int ?i"]
  obtain w3 where w3: "save_balance_to_file rt fm w2 (int ?i) ib = (True, w3)" by blast
  have "create_new_account rt fm clk w account_name initial_balance = (Inr (?i, ?info), w3)"
    using assms(1-3) n nz w2 w3
    by (simp add: create_new_account_def Let_def)
  then show ?thesis by blast
qed


text \<open>Two creations in a row on an empty file system: the identifiers are 1, then 2.\<close>

lemma one_million_nonneg: "fle (Finite 0) one_million"
  unfolding one_million_def by (rule fle_zero_scaled) simp




section \<open>Which names a creation accepts\<close>

lemma strip_Nil [simp]: "strip [] = []"
  by (simp add: strip_def)

lemma create_name_error_iff:
  "(fst (create_new_account rt fm clk w account_name initial_balance)
      = Inl (ValueError ''Account name cannot be empty'')) = (strip account_name = [])"
proof (cases "strip account_name = []")
  case True
  then show ?thesis by (simp add: create_new_account_def)
next
  case False
  then have n: "account_name \<noteq> []" by auto
  have "fst (create_new_account rt fm clk w account_name initial_balance)
      \<noteq> Inl (ValueError ''Account name cannot be empty'')"
    using False n
    by (auto simp: create_new_account_def Let_def float_coerce_def
        split: sum.splits prod.splits json.splits bool.splits pyval.splits pyfloat.splits
          option.splits)
  with False show ?thesis by simp
qed

lemma validate_account_name_iff:
  "fst (validate_account_name name)
     = (2 \<le> length (strip name) \<and> length (strip name) \<le> 50
        \<and> (\<forall>c \<in> set invalid_chars. c \<notin> set (strip name)))"
  by (auto simp: validate_account_name_def Let_def)

text \<open>
  C5, amended: \<^verbatim>\<open>create_new_account\<close> rejects a name with the validation error
  \<^verbatim>\<open>ValueError("Account name cannot be empty")\<close> exactly when the name is empty or
  blank; with any other name, of any length and with any characters, a valid initial
  balance and a file system that accepts the writes, the creation succeeds. The rule
  "2 to 50 characters after trimming, none of \<^verbatim>\<open>< > / \ | : * ? "\<close>" is what
  \<^verbatim>\<open>validate_account_name\<close> answers, a function that the creation does not call.
\<close>

theorem creation_checks_blank_names_only:
  assumes "get_accounts_list rt fm clk w = (JObj accounts, w1)"
  shows "((fst (create_new_account rt fm clk w account_name initial_balance)
            = Inl (ValueError ''Account name cannot be empty'')) = (strip account_name = []))
         \<and> (strip account_name \<noteq> [] \<and> float_coerce rt initial_balance = Inr ib
              \<and> fle (Finite 0) ib \<and> write_fails w = (\<lambda>p. False)
            \<longrightarrow> (\<exists>i info w'. create_new_account rt fm clk w account_name initial_balance
                    = (Inr (i, info), w')))
         \<and> fst (validate_account_name account_name)
             = (2 \<le> length (strip account_name) \<and> length (strip account_name) \<le> 50
                \<and> (\<forall>c \<in> set invalid_chars. c \<notin> set (strip account_name)))"
proof (intro conjI impI)
  show "(fst (create_new_account rt fm clk w account_name initial_balance)
            = Inl (ValueError ''Account name cannot be empty'')) = (strip account_name = [])"
    by (rule create_name_error_iff)
  show "fst (validate_account_name account_name)
             = (2 \<le> length (strip account_name) \<and> length (strip account_name) \<le> 50
                \<and> (\<forall>c \<in> set invalid_chars. c \<notin> set (strip account_name)))"
    by (rule validate_account_name_iff)
next
  assume "strip account_name \<noteq> [] \<and> float_coerce rt initial_balance = Inr ib
              \<and> fle (Finite 0) ib \<and> write_fails w = (\<lambda>p. False)"
  then show "\<exists>i info w'. create_new_account rt fm clk w account_name initial_balance
                    = (Inr (i, info), w')"
    using create_succeeds [OF assms, of account_name initial_balance ib] by blast
qed

text \<open>
  C5 as stated fails: the one-character name \<^verbatim>\<open>"A"\<close>, which the validator refuses, is
  accepted by \<^verbatim>\<open>create_new_account\<close>, which creates account 1.
\<close>

theorem short_name_counterexample:
  "length (strip ''A'') < 2
   \<and> fst (validate_account_name ''A'') = False
   \<and> fst (create_new_account example_runtime example_manager example_clock empty_world ''A''
        (PFloat one_million))
      = Inr (1, account_info_of 1 ''A'' ''2024-01-01 12:00:00'' one_million)"
  using fle_zero_not_flt [OF one_million_nonneg]
  by (simp add: create_new_account_def float_coerce_def get_accounts_list_def load_json_file_def
      path_exists_def empty_world_def example_manager_def example_clock_def example_runtime_def
      next_account_id_free str_nat_1 str_nat_1 [unfolded One_nat_def] save_accounts_list_def
      save_json_file_def write_text_def validate_account_name_def
      save_balance_to_file_def get_account_balance_path_def path_join_def str_int_def
      account_info_of_def strip_def is_space_def Let_def)

theorem creation_checks_blank_names_only_witness:
  "get_accounts_list example_runtime example_manager example_clock empty_world
     = (JObj [], empty_world)
   \<and> strip ''<'' \<noteq> []
   \<and> float_coerce example_runtime (PFloat one_million) = Inr one_million
   \<and> fle (Finite 0) one_million
   \<and> write_fails empty_world = (\<lambda>p. False)
   \<and> fst (create_new_account example_runtime example_manager example_clock empty_world ''<''
        (PFloat one_million)) \<noteq> Inl (ValueError ''Account name cannot be empty'')
   \<and> \<not> fst (validate_account_name ''<'')
   \<and> fst (create_new_account example_runtime example_manager example_clock empty_world ''   ''
        (PFloat one_million)) = Inl (ValueError ''Account name cannot be empty'')"
proof -
  let ?rt = example_runtime and ?fm = example_manager and ?clk = example_clock
  have h1: "get_accounts_list ?rt ?fm ?clk empty_world = (JObj [], empty_world)"
    by (simp add: get_accounts_list_def load_json_file_def path_exists_def empty_world_def)
  have n: "strip ''<'' \<noteq> []" "strip ''   '' = []"
    by (simp_all add: strip_def is_space_def)
  have l: "length (strip ''<'') = 1" by (simp add: strip_def is_space_def)
  have c: "float_coerce ?rt (PFloat one_million) = Inr one_million"
    by (simp add: float_coerce_def)
  have e: "write_fails empty_world = (\<lambda>p. False)"
    by (simp add: empty_world_def)
  note T1 = creation_checks_blank_names_only [OF h1, of "''<''" "PFloat one_million" one_million]
  note T2 = creation_checks_blank_names_only [OF h1, of "''   ''" "PFloat one_million" one_million]
  have a: "fst (create_new_account ?rt ?fm ?clk empty_world ''<'' (PFloat one_million))
      \<noteq> Inl (ValueError ''Account name cannot be empty'')"
    using T1 n by blast
  have b: "\<not> fst (validate_account_name ''<'')"
    using T1 l by simp
  have d: "fst (create_new_account ?rt ?fm ?clk empty_world ''   '' (PFloat one_million))
      = Inl (ValueError ''Account name cannot be empty'')"
    using T2 n by blast
  from h1 n(1) c one_million_nonneg e a b d show ?thesis by (intro conjI)
qed

section \<open>Loading the registry\<close>

text \<open>
  C7, amended: \<^verbatim>\<open>load_json_file\<close>, which loads the registry, returns an empty mapping and
  leaves the file system alone when the file is absent, cannot be read or is blank; when
  the content is not blank and \<^verbatim>\<open>json.loads\<close> rejects it, it returns an empty mapping
  after trying to rename the file aside: if the rename succeeds the content is found under
  \<^verbatim>\<open><path>.corrupted_<timestamp>\<close> and no longer under its own name, and if the rename
  fails the failure is passed over and the file stays where it was. The function is total:
  every exception of its body is caught by one of its two handlers, so none reaches the
  caller.
\<close>

theorem load_json_file_empty_cases:
  "(files w p = None \<longrightarrow> load_json_file rt stamp w p = (JObj [], w))
   \<and> (files w p = Some raw \<and> (read_fails w p \<or> strip raw = [])
        \<longrightarrow> load_json_file rt stamp w p = (JObj [], w))
   \<and> (files w p = Some raw \<and> \<not> read_fails w p \<and> strip raw \<noteq> []
        \<and> json_loads rt (strip raw) = None
        \<longrightarrow> fst (load_json_file rt stamp w p) = JObj []
            \<and> (rename_fails w p \<longrightarrow> snd (load_json_file rt stamp w p) = w)
            \<and> (\<not> rename_fails w p
                 \<longrightarrow> files (snd (load_json_file rt stamp w p)) p = None
                     \<and> files (snd (load_json_file rt stamp w p)) (p @ ''.corrupted_'' @ stamp)
                         = Some raw))"
  by (auto simp: load_json_file_def path_exists_def read_text_def rename_file_def Let_def)

text \<open>
  C7 as stated fails where \<^verbatim>\<open>os.rename\<close> raises: the handler ignores it
  (\<^verbatim>\<open>except Exception: pass\<close>), the empty mapping is returned and the unparsable file is
  still in place, with no file beside it.
\<close>

theorem rename_failure_counterexample:
  "files (corrupt_world\<lparr>rename_fails := (\<lambda>p. True)\<rparr>) ''accounts_registry.json''
     = Some ''{not json''
   \<and> json_loads example_runtime (strip ''{not json'') = None
   \<and> load_json_file example_runtime ''20240101_120000''
        (corrupt_world\<lparr>rename_fails := (\<lambda>p. True)\<rparr>) ''accounts_registry.json''
      = (JObj [], corrupt_world\<lparr>rename_fails := (\<lambda>p. True)\<rparr>)
   \<and> files (snd (load_json_file example_runtime ''20240101_120000''
        (corrupt_world\<lparr>rename_fails := (\<lambda>p. True)\<rparr>) ''accounts_registry.json''))
        ''accounts_registry.json.corrupted_20240101_120000'' = None"
  by (simp add: load_json_file_def path_exists_def read_text_def rename_file_def Let_def
      corrupt_world_def empty_world_def example_runtime_def strip_def is_space_def)

theorem load_json_file_empty_cases_witness:
  "files empty_world ''accounts_registry.json'' = None
   \<and> load_json_file example_runtime ''20240101_120000'' empty_world ''accounts_registry.json''
       = (JObj [], empty_world)
   \<and> files (empty_world\<lparr>files := (\<lambda>p. None)(''accounts_registry.json'' \<mapsto> ''  '')\<rparr>)
        ''accounts_registry.json'' = Some ''  ''
   \<and> strip ''  '' = []
   \<and> load_json_file example_runtime ''20240101_120000''
        (empty_world\<lparr>files := (\<lambda>p. None)(''accounts_registry.json'' \<mapsto> ''  '')\<rparr>)
        ''accounts_registry.json''
       = (JObj [], empty_world\<lparr>files := (\<lambda>p. None)(''accounts_registry.json'' \<mapsto> ''  '')\<rparr>)
   \<and> files corrupt_world ''accounts_registry.json'' = Some ''{not json''
   \<and> \<not> read_fails corrupt_world ''accounts_registry.json''
   \<and> strip ''{not json'' \<noteq> []
   \<and> json_loads example_runtime (strip ''{not json'') = None
   \<and> \<not> rename_fails corrupt_world ''accounts_registry.json''
   \<and> fst (load_json_file example_runtime ''20240101_120000'' corrupt_world
        ''accounts_registry.json'') = JObj []
   \<and> files (snd (load_json_file example_runtime ''20240101_120000'' corrupt_world
        ''accounts_registry.json'')) ''accounts_registry.json'' = None
   \<and> files (snd (load_json_file example_runtime ''20240101_120000'' corrupt_world
        ''accounts_registry.json'')) (''accounts_registry.json'' @ ''.corrupted_'' @ ''20240101_120000'')
       = Some ''{not json''"
proof -
  let ?p = "''accounts_registry.json''" and ?s = "''20240101_120000''"
  let ?blank = "empty_world\<lparr>files := (\<lambda>p. None)(''accounts_registry.json'' \<mapsto> ''  '')\<rparr>"
  have a: "files empty_world ?p = None" by (simp add: empty_world_def)
  have b: "files ?blank ?p = Some ''  ''" "strip ''  '' = []"
    by (simp_all add: strip_def is_space_def)
  have c: "files corrupt_world ?p = Some ''{not json''" "\<not> read_fails corrupt_world ?p"
    "strip ''{not json'' \<noteq> []" "json_loads example_runtime (strip ''{not json'') = None"
    "\<not> rename_fails corrupt_world ?p"
    by (simp_all add: corrupt_world_def empty_world_def strip_def is_space_def example_runtime_def)
  note A = load_json_file_empty_cases [where w = empty_world and p = ?p and rt = example_runtime
      and stamp = ?s and raw = "[]", THEN conjunct1,
      rule_format, OF a]
  note B = load_json_file_empty_cases [where w = ?blank and p = ?p and rt = example_runtime
      and stamp = ?s and raw = "''  ''",
      THEN conjunct2, THEN conjunct1, rule_format]
  note C = load_json_file_empty_cases [where w = corrupt_world and p = ?p and rt = example_runtime
      and stamp = ?s and raw = "''{not json''",
      THEN conjunct2, THEN conjunct2, rule_format]
  have B': "load_json_file example_runtime ?s ?blank ?p = (JObj [], ?blank)"
    using b by (intro B) simp
  have C': "fst (load_json_file example_runtime ?s corrupt_world ?p) = JObj []
     \<and> (rename_fails corrupt_world ?p \<longrightarrow> snd (load_json_file example_runtime ?s corrupt_world ?p) = corrupt_world)
     \<and> (\<not> rename_fails corrupt_world ?p
          \<longrightarrow> files (snd (load_json_file example_runtime ?s corrupt_world ?p)) ?p = None
              \<and> files (snd (load_json_file example_runtime ?s corrupt_world ?p))
                   (?p @ ''.corrupted_'' @ ?s) = Some ''{not json'')"
    using c by (intro C) simp
  from a A b B' c C' show ?thesis by blast
qed

section \<open>Loading a balance\<close>

lemma flt_not_fle: "flt v (Finite 0) \<Longrightarrow> \<not> fle (Finite 0) v"
  by (cases v) (auto simp: flt_def fle_def)

lemma example_balance_path:
  "get_account_balance_path example_manager 1 = ''accounts/account_1_balance.txt''"
  by (simp add: get_account_balance_path_def example_manager_def path_join_def str_int_def
      str_nat_1 [unfolded One_nat_def])

text \<open>
  C9: for every account id, \<^verbatim>\<open>load_balance_from_file\<close> on a balance file that holds a
  parseable negative number returns the default and writes nothing: the file system is
  what it was, the file keeps its negative content, and a later load of the same id again
  returns its default and again leaves the file as it is.
\<close>

theorem negative_balance_file_not_repaired:
  assumes "files w (get_account_balance_path fm i) = Some raw" and "strip raw \<noteq> []"
    and "float_of_str rt (strip raw) = Some v" and "flt v (Finite 0)"
  shows "load_balance_from_file rt fm w i d = (d, w)
         \<and> files (snd (load_balance_from_file rt fm w i d)) (get_account_balance_path fm i) = Some raw
         \<and> load_balance_from_file rt fm (snd (load_balance_from_file rt fm w i d)) i d' = (d', w)"
proof -
  have "load_balance_from_file rt fm w i x = (x, w)" for x
    using assms flt_not_fle [OF assms(4)]
    by (simp add: load_balance_from_file_def Let_def path_exists_def read_text_def)
  then show ?thesis using assms(1) by simp
qed

theorem negative_balance_file_not_repaired_witness:
  "files overdrawn_world (get_account_balance_path example_manager 1) = Some ''-5.0''
   \<and> strip ''-5.0'' \<noteq> []
   \<and> float_of_str example_runtime (strip ''-5.0'') = Some (Finite (- 5 * 2 ^ 1074))
   \<and> flt (Finite (- 5 * 2 ^ 1074)) (Finite 0)
   \<and> load_balance_from_file example_runtime example_manager overdrawn_world 1 one_million
       = (one_million, overdrawn_world)
   \<and> files (snd (load_balance_from_file example_runtime example_manager overdrawn_world 1
        one_million)) (get_account_balance_path example_manager 1) = Some ''-5.0''
   \<and> load_balance_from_file example_runtime example_manager
        (snd (load_balance_from_file example_runtime example_manager overdrawn_world 1 one_million))
        1 (Finite (50 * 2 ^ 1074))
       = (Finite (50 * 2 ^ 1074), overdrawn_world)"
proof -
  have a: "files overdrawn_world (get_account_balance_path example_manager 1) = Some ''-5.0''"
    by (simp add: example_balance_path overdrawn_world_def)
  have b: "strip ''-5.0'' \<noteq> []"
    and c: "float_of_str example_runtime (strip ''-5.0'') = Some (Finite (- 5 * 2 ^ 1074))"
    by (simp_all add: strip_def is_space_def example_runtime_def)
  have d: "flt (Finite (- 5 * 2 ^ 1074)) (Finite 0)" by (simp add: flt_def)
  from a b c d negative_balance_file_not_repaired [OF a b c d, of one_million "Finite (50 * 2 ^ 1074)"]
  show ?thesis by (intro conjI) blast+
qed

text \<open>
  C8, amended: for every account id, \<^verbatim>\<open>load_balance_from_file\<close> on a balance file that
  exists, can be read and is empty or blank returns the default, as it does when the file
  is absent; when the default is not negative and the file can be written, the file holds
  the default afterwards in both cases and the two file systems agree everywhere except at
  the \<^verbatim>\<open>.backup\<close> sibling of the balance file, to which the blank content is copied
  first when the file exists (and that sibling can be written); the copy is made in text
  mode, so it holds the content with LF for every line ending.
\<close>

theorem blank_balance_file_like_absent:
  assumes "files w (get_account_balance_path fm i) = Some raw"
    and "\<not> read_fails w (get_account_balance_path fm i)" and "strip raw = []"
  shows "fst (load_balance_from_file rt fm w i d) = d
     \<and> fst (load_balance_from_file rt fm
          (w\<lparr>files := (files w)(get_account_balance_path fm i := None)\<rparr>) i d) = d
     \<and> (\<not> flt d (Finite 0) \<and> \<not> write_fails w (get_account_balance_path fm i)
          \<longrightarrow> files (snd (load_balance_from_file rt fm w i d)) (get_account_balance_path fm i)
                = Some (str_of_float rt d)
              \<and> files (snd (load_balance_from_file rt fm
                    (w\<lparr>files := (files w)(get_account_balance_path fm i := None)\<rparr>) i d))
                  (get_account_balance_path fm i) = Some (str_of_float rt d)
              \<and> (\<forall>p. p \<noteq> get_account_balance_path fm i @ ''.backup''
                   \<longrightarrow> files (snd (load_balance_from_file rt fm w i d)) p
                       = files (snd (load_balance_from_file rt fm
                           (w\<lparr>files := (files w)(get_account_balance_path fm i := None)\<rparr>) i d)) p)
              \<and> (\<not> write_fails w (get_account_balance_path fm i @ ''.backup'')
                   \<longrightarrow> files (snd (load_balance_from_file rt fm w i d))
                         (get_account_balance_path fm i @ ''.backup'')
                       = Some (universal_newlines raw)))"
  using assms
  by (auto simp: load_balance_from_file_def save_balance_to_file_def Let_def path_exists_def
      read_text_def write_text_def backup_copy_def)

text \<open>
  C8 as stated, "exactly as if the file were absent", fails on the backup: after the load
  of a blank file the \<^verbatim>\<open>.backup\<close> sibling holds the blank content, and after the load of
  an absent file there is no such sibling.
\<close>

theorem blank_balance_file_counterexample:
  "files blank_world (get_account_balance_path example_manager 1) = Some ''  ''
   \<and> strip ''  '' = []
   \<and> files (snd (load_balance_from_file example_runtime example_manager blank_world 1 one_million))
        ''accounts/account_1_balance.txt.backup'' = Some ''  ''
   \<and> files (snd (load_balance_from_file example_runtime example_manager
        (blank_world\<lparr>files := (files blank_world)(get_account_balance_path example_manager 1 := None)\<rparr>)
        1 one_million))
        ''accounts/account_1_balance.txt.backup'' = None"
  using fle_zero_not_flt [OF one_million_nonneg]
  by (simp add: example_balance_path blank_world_def empty_world_def strip_def is_space_def
      load_balance_from_file_def save_balance_to_file_def Let_def path_exists_def
      read_text_def write_text_def backup_copy_def)

theorem blank_balance_file_like_absent_witness:
  "files blank_world (get_account_balance_path example_manager 1) = Some ''  ''
   \<and> \<not> read_fails blank_world (get_account_balance_path example_manager 1)
   \<and> strip ''  '' = []
   \<and> \<not> flt one_million (Finite 0)
   \<and> \<not> write_fails blank_world (get_account_balance_path example_manager 1)
   \<and> fst (load_balance_from_file example_runtime example_manager blank_world 1 one_million)
       = one_million
   \<and> files (snd (load_balance_from_file example_runtime example_manager blank_world 1 one_million))
        (get_account_balance_path example_manager 1) = Some (str_of_float example_runtime one_million)"
proof -
  have a: "files blank_world (get_account_balance_path example_manager 1) = Some ''  ''"
    and b: "\<not> read_fails blank_world (get_account_balance_path example_manager 1)"
    and c: "strip ''  '' = []"
    and e: "\<not> write_fails blank_world (get_account_balance_path example_manager 1)"
    by (simp_all add: example_balance_path blank_world_def empty_world_def strip_def is_space_def)
  have d: "\<not> flt one_million (Finite 0)"
    by (rule fle_zero_not_flt [OF one_million_nonneg])
  from a b c d e blank_balance_file_like_absent [OF a b c, of example_runtime one_million]
  show ?thesis by (intro conjI) blast+
qed

section \<open>The coercion of the amount\<close>

lemma float_of_int_overflow: "float_of_int (2 ^ 1024) = PInf"
proof -
  have e: "(2::int) ^ 1024 * 2 ^ 1074 = int (1 * 2 ^ 2098)" by simp
  have r: "round53 1 = 1" by (simp add: round53_def rne_div_def bit_length.simps)
  have "round53 (1 * 2 ^ 2098) = 1 * 2 ^ 2098"
    unfolding round53_shift r by simp
  then have "float_limit \<le> round53 (1 * 2 ^ 2098)"
    by (simp add: float_limit_def)
  then show ?thesis
    unfolding float_of_int_def e of_exact_of_nat by (simp only: if_True)
qed

text \<open>
  C10, amended: \<^verbatim>\<open>deposit(amount)\<close> and \<^verbatim>\<open>withdraw(amount)\<close> coerce their argument with
  \<^verbatim>\<open>float()\<close>: a string that parses as a number is treated as that number; an argument
  for which \<^verbatim>\<open>float()\<close> raises \<^verbatim>\<open>ValueError\<close> or \<^verbatim>\<open>TypeError\<close> (a string that does not
  parse, \<^verbatim>\<open>None\<close>) makes the operation return the failure \<^verbatim>\<open>"Invalid amount format"\<close>;
  an integer too large for a float, for which \<^verbatim>\<open>float()\<close> raises \<^verbatim>\<open>OverflowError\<close>,
  makes it return the failure \<^verbatim>\<open>"Deposit error: int too large to convert to float"\<close>
  (\<^verbatim>\<open>"Withdrawal error: ..."\<close> for a withdrawal). In every case the entity and the file
  system are unchanged and no exception is raised.
\<close>

theorem amount_coercion:
  "(float_of_str rt s = Some v
      \<longrightarrow> deposit rt fm (PStr s) (acct, w) = deposit rt fm (PFloat v) (acct, w)
          \<and> withdraw rt fm (PStr s) (acct, w) = withdraw rt fm (PFloat v) (acct, w))
   \<and> (float_of_str rt s = None
      \<longrightarrow> deposit rt fm (PStr s) (acct, w) = ((False, ''Invalid amount format''), acct, w)
          \<and> withdraw rt fm (PStr s) (acct, w) = ((False, ''Invalid amount format''), acct, w))
   \<and> deposit rt fm PNone (acct, w) = ((False, ''Invalid amount format''), acct, w)
   \<and> withdraw rt fm PNone (acct, w) = ((False, ''Invalid amount format''), acct, w)
   \<and> (float_of_int n = PInf \<or> float_of_int n = NInf
      \<longrightarrow> deposit rt fm (PInt n) (acct, w)
            = ((False, ''Deposit error: int too large to convert to float''), acct, w)
          \<and> withdraw rt fm (PInt n) (acct, w)
            = ((False, ''Withdrawal error: int too large to convert to float''), acct, w))"
  by (auto simp: deposit_def withdraw_def float_coerce_def)

text \<open>
  C10 as stated fails on an argument that \<^verbatim>\<open>float()\<close> refuses with an
  \<^verbatim>\<open>OverflowError\<close>: \<^verbatim>\<open>deposit(2 ** 1024)\<close> returns a failure whose message is not
  \<^verbatim>\<open>"Invalid amount format"\<close>.
\<close>

theorem huge_int_counterexample:
  "deposit example_runtime example_manager (PInt (2 ^ 1024))
     (\<lparr>account_id = 1, balance = Finite (50 * 2 ^ 1074)\<rparr>, empty_world)
   = ((False, ''Deposit error: int too large to convert to float''),
      \<lparr>account_id = 1, balance = Finite (50 * 2 ^ 1074)\<rparr>, empty_world)
   \<and> ''Deposit error: int too large to convert to float'' \<noteq> ''Invalid amount format''"
  using float_of_int_overflow by (simp add: deposit_def float_coerce_def)

theorem amount_coercion_witness:
  "float_of_str example_runtime ''50'' = Some (Finite (50 * 2 ^ 1074))
   \<and> deposit example_runtime example_manager (PStr ''50'') (\<lparr>account_id = 1, balance = Finite 0\<rparr>, empty_world)
       = deposit example_runtime example_manager (PFloat (Finite (50 * 2 ^ 1074)))
           (\<lparr>account_id = 1, balance = Finite 0\<rparr>, empty_world)
   \<and> float_of_str example_runtime ''fifty'' = None
   \<and> withdraw example_runtime example_manager (PStr ''fifty'')
        (\<lparr>account_id = 1, balance = Finite 0\<rparr>, empty_world)
       = ((False, ''Invalid amount format''), \<lparr>account_id = 1, balance = Finite 0\<rparr>, empty_world)
   \<and> float_of_int (2 ^ 1024) = PInf
   \<and> withdraw example_runtime example_manager (PInt (2 ^ 1024))
        (\<lparr>account_id = 1, balance = Finite 0\<rparr>, empty_world)
       = ((False, ''Withdrawal error: int too large to convert to float''),
          \<lparr>account_id = 1, balance = Finite 0\<rparr>, empty_world)"
proof -
  have a: "float_of_str example_runtime ''50'' = Some (Finite (50 * 2 ^ 1074))"
    and b: "float_of_str example_runtime ''fifty'' = None"
    by (simp_all add: example_runtime_def)
  note c = float_of_int_overflow
  note A = amount_coercion [where rt = example_runtime and s = "''50''"
      and v = "Finite (50 * 2 ^ 1074)" and fm = example_manager
      and acct = "\<lparr>account_id = 1, balance = Finite 0\<rparr>" and w = empty_world]
  note B = amount_coercion [where rt = example_runtime and s = "''fifty''"
      and fm = example_manager and n = "2 ^ 1024"
      and acct = "\<lparr>account_id = 1, balance = Finite 0\<rparr>" and w = empty_world]
  from a b c A B show ?thesis by (intro conjI) blast+
qed

text \<open>
  The backup is a copy in text mode: a balance file that holds only CR LF is blank, and its
  \<^verbatim>\<open>.backup\<close> sibling holds a single LF after the load.
\<close>

lemma blank_crlf_backup:
  "files (snd (load_balance_from_file example_runtime example_manager
      (empty_world\<lparr>files := (\<lambda>p. None)
         (''accounts/account_1_balance.txt'' \<mapsto> [CHR 0x0D, CHR 0x0A])\<rparr>) 1 one_million))
      ''accounts/account_1_balance.txt.backup'' = Some [CHR 0x0A]"
  using fle_zero_not_flt [OF one_million_nonneg]
  by (simp add: example_balance_path empty_world_def strip_def is_space_def
      load_balance_from_file_def save_balance_to_file_def Let_def path_exists_def
      read_text_def write_text_def backup_copy_def)

section \<open>A deposit of nan\<close>

text \<open>
  C1: for every account entity whose loaded balance is non-negative, after any finite
  sequence of \<^verbatim>\<open>deposit\<close> and \<^verbatim>\<open>withdraw\<close> calls, with any numeric arguments,
  \<^verbatim>\<open>get_balance()\<close> returns a value \<open>\<ge> 0\<close>. The guards of the code that are there to
  keep it miss one case: on the balance \<open>50.0\<close>, \<^verbatim>\<open>deposit(float('nan'))\<close> passes the test
  \<^verbatim>\<open>amount <= 0\<close>, reports success with the balance \<^verbatim>\<open>nan\<close>, and
  \<^verbatim>\<open>save_balance_to_file\<close> writes \<^verbatim>\<open>nan\<close> to the balance file because \<^verbatim>\<open>nan < 0\<close> is
  false; \<^verbatim>\<open>get_balance() >= 0\<close> is false afterwards. The guard of the load,
  \<^verbatim>\<open>balance >= 0\<close>, refuses the value that the save has written and returns the default
  \<open>1000000\<close>.
\<close>

theorem nan_deposit_defeats_guards:
  "fle (Finite 0) (Finite (50 * 2 ^ 1074))
   \<and> deposit example_runtime example_manager (PFloat NaN)
        (\<lparr>account_id = 1, balance = Finite (50 * 2 ^ 1074)\<rparr>, empty_world)
      = ((True, ''Deposit successful. New balance: Rnan''),
         \<lparr>account_id = 1, balance = NaN\<rparr>,
         empty_world\<lparr>files := (\<lambda>p. None)(''accounts/account_1_balance.txt'' \<mapsto> ''nan'')\<rparr>)
   \<and> \<not> fle (Finite 0) (get_balance (fst (run_calls example_runtime example_manager
        [Deposit (PFloat NaN)]
        (\<lparr>account_id = 1, balance = Finite (50 * 2 ^ 1074)\<rparr>, empty_world))))
   \<and> load_balance_from_file example_runtime example_manager
        (empty_world\<lparr>files := (\<lambda>p. None)(''accounts/account_1_balance.txt'' \<mapsto> ''nan'')\<rparr>)
        1 one_million
      = (one_million,
         empty_world\<lparr>files := (\<lambda>p. None)(''accounts/account_1_balance.txt'' \<mapsto> ''nan'')\<rparr>)"
proof -
  have d: "deposit example_runtime example_manager (PFloat NaN)
        (\<lparr>account_id = 1, balance = Finite (50 * 2 ^ 1074)\<rparr>, empty_world)
      = ((True, ''Deposit successful. New balance: Rnan''),
         \<lparr>account_id = 1, balance = NaN\<rparr>,
         empty_world\<lparr>files := (\<lambda>p. None)(''accounts/account_1_balance.txt'' \<mapsto> ''nan'')\<rparr>)"
    by (simp add: fle_def deposit_def float_coerce_def save_balance_def format_2f_def
        save_balance_to_file_def flt_def Let_def path_exists_def write_text_def empty_world_def
        example_balance_path example_runtime_def one_million_def)
  have l: "load_balance_from_file example_runtime example_manager
        (empty_world\<lparr>files := (\<lambda>p. None)(''accounts/account_1_balance.txt'' \<mapsto> ''nan'')\<rparr>)
        1 one_million
      = (one_million,
         empty_world\<lparr>files := (\<lambda>p. None)(''accounts/account_1_balance.txt'' \<mapsto> ''nan'')\<rparr>)"
    by (simp add: load_balance_from_file_def Let_def path_exists_def read_text_def empty_world_def
        example_balance_path example_runtime_def strip_def is_space_def fle_def)
  have n: "\<not> fle (Finite 0) (get_balance (fst (run_calls example_runtime example_manager
        [Deposit (PFloat NaN)]
        (\<lparr>account_id = 1, balance = Finite (50 * 2 ^ 1074)\<rparr>, empty_world))))"
    using d by (simp add: get_balance_def fle_def)
  have p: "fle (Finite 0) (Finite (50 * 2 ^ 1074))" by (simp add: fle_def)
  from p d n l show ?thesis by (intro conjI)
qed

end
